theory Spec2Isabelle
  imports Complex_Main
begin

section \<open>Numbers and vectors\<close>

text \<open>
  The TypeScript sources compute on \<^verbatim>\<open>number\<close>. Continuous quantities (positions,
  speeds, times) are modelled as \<^typ>\<open>real\<close>, so rounding, NaN and the infinities of
  IEEE doubles are outside the model; counters that the code only ever increments, resets
  or floors (score, lives, combo) are \<^typ>\<open>int\<close>.
\<close>

record vec3 =
  vec_x :: real
  vec_y :: real
  vec_z :: real

record box3 =
  box_min :: vec3
  box_max :: vec3

definition Vector3 :: "real \<Rightarrow> real \<Rightarrow> real \<Rightarrow> vec3" where
  "Vector3 a b c = \<lparr>vec_x = a, vec_y = b, vec_z = c\<rparr>"

definition v_add :: "vec3 \<Rightarrow> vec3 \<Rightarrow> vec3" where
  "v_add a b = Vector3 (vec_x a + vec_x b) (vec_y a + vec_y b) (vec_z a + vec_z b)"

definition v_sub :: "vec3 \<Rightarrow> vec3 \<Rightarrow> vec3" where
  "v_sub a b = Vector3 (vec_x a - vec_x b) (vec_y a - vec_y b) (vec_z a - vec_z b)"

definition multiplyScalar :: "vec3 \<Rightarrow> real \<Rightarrow> vec3" where
  "multiplyScalar a k = Vector3 (vec_x a * k) (vec_y a * k) (vec_z a * k)"

text \<open>
  \<^verbatim>\<open>v.applyAxisAngle(new Vector3(0, 1, 0), angle)\<close> of three.js: the rotation of \<open>v\<close>
  about the vertical axis.
\<close>

definition applyAxisAngleY :: "vec3 \<Rightarrow> real \<Rightarrow> vec3" where
  "applyAxisAngleY v a =
     Vector3 (vec_x v * cos a + vec_z v * sin a) (vec_y v) (vec_z v * cos a - vec_x v * sin a)"

text \<open>\<^verbatim>\<open>Box3\<close> of three.js: \<^verbatim>\<open>isEmpty\<close>, \<^verbatim>\<open>getCenter\<close>, \<^verbatim>\<open>getSize\<close>,
  \<^verbatim>\<open>setFromCenterAndSize\<close> and \<^verbatim>\<open>intersectsBox\<close>.\<close>

definition isEmpty :: "box3 \<Rightarrow> bool" where
  "isEmpty b \<longleftrightarrow>
     vec_x (box_max b) < vec_x (box_min b) \<or> vec_y (box_max b) < vec_y (box_min b)
     \<or> vec_z (box_max b) < vec_z (box_min b)"

definition getCenter :: "box3 \<Rightarrow> vec3" where
  "getCenter b =
     (if isEmpty b then Vector3 0 0 0 else multiplyScalar (v_add (box_min b) (box_max b)) (1 / 2))"

definition getSize :: "box3 \<Rightarrow> vec3" where
  "getSize b = (if isEmpty b then Vector3 0 0 0 else v_sub (box_max b) (box_min b))"

definition setFromCenterAndSize :: "vec3 \<Rightarrow> vec3 \<Rightarrow> box3" where
  "setFromCenterAndSize c sz =
     (let h = multiplyScalar sz (1 / 2) in \<lparr>box_min = v_sub c h, box_max = v_add c h\<rparr>)"

definition intersectsBox :: "box3 \<Rightarrow> box3 \<Rightarrow> bool" where
  "intersectsBox a b \<longleftrightarrow>
     (if vec_x (box_max b) < vec_x (box_min a) \<or> vec_x (box_min b) > vec_x (box_max a)
         \<or> vec_y (box_max b) < vec_y (box_min a) \<or> vec_y (box_min b) > vec_y (box_max a)
         \<or> vec_z (box_max b) < vec_z (box_min a) \<or> vec_z (box_min b) > vec_z (box_max a)
      then False else True)"

subsection \<open>math-utils.ts\<close>

definition clamp :: "real \<Rightarrow> real \<Rightarrow> real \<Rightarrow> real" where
  "clamp v lo hi = min (max v lo) hi"

definition lerp :: "real \<Rightarrow> real \<Rightarrow> real \<Rightarrow> real" where
  "lerp a b t = a + (b - a) * t"

text \<open>\<^verbatim>\<open>MathUtils.random(min, max)\<close>, with the value of \<^verbatim>\<open>Math.random()\<close> as \<open>r\<close>.\<close>

definition random :: "real \<Rightarrow> real \<Rightarrow> real \<Rightarrow> real" where
  "random r lo hi = r * (hi - lo) + lo"

section \<open>CarController.ts\<close>

record ControlSettings =
  sensitivity :: real
  invertSteering :: bool

record wheel =
  wheel_rotation_x :: real
  wheel_rotation_y :: real

record wheels =
  frontLeft :: wheel
  frontRight :: wheel
  rearLeft :: wheel
  rearRight :: wheel

text \<open>The car's \<^verbatim>\<open>THREE.Group\<close>: the transform the controller writes, and the optional
  \<^verbatim>\<open>wheels\<close> property.\<close>

record car_mesh =
  mesh_position :: vec3
  mesh_rotation_x :: real
  mesh_rotation_y :: real
  mesh_rotation_z :: real
  mesh_wheels :: "wheels option"

record CarController =
  car :: "car_mesh option"
  car_position :: vec3
  car_velocity :: vec3
  car_rotation :: real
  car_speed :: real
  maxSpeed :: real
  acceleration :: real
  deceleration :: real
  turnSpeed :: real
  keys :: "string \<Rightarrow> bool option"
  settings :: ControlSettings
  wheelRotation :: real
  engineSound :: real
  car_boundingBox :: box3

text \<open>The field initialisers of the class; \<^verbatim>\<open>new THREE.Box3()\<close> is the empty box, whose
  corners are infinite in three.js and are left as a parameter here.\<close>

definition new_CarController :: "box3 \<Rightarrow> CarController" where
  "new_CarController b0 =
     \<lparr>car = None, car_position = Vector3 0 0 0, car_velocity = Vector3 0 0 0, car_rotation = 0,
      car_speed = 0, maxSpeed = 25, acceleration = 15, deceleration = 10, turnSpeed = 5 / 2,
      keys = (\<lambda>k. None), settings = \<lparr>sensitivity = 1, invertSteering = False\<rparr>,
      wheelRotation = 0, engineSound = 0, car_boundingBox = b0\<rparr>"

text \<open>\<^verbatim>\<open>this.keys[k]\<close> read as a condition: a missing key is \<^verbatim>\<open>undefined\<close>, which is falsy.\<close>

definition pressed :: "CarController \<Rightarrow> string \<Rightarrow> bool" where
  "pressed s k \<longleftrightarrow> keys s k = Some True"

definition handleKeyDown :: "string \<Rightarrow> CarController \<Rightarrow> CarController" where
  "handleKeyDown code s = s\<lparr>keys := (keys s)(code \<mapsto> True)\<rparr>"

definition handleKeyUp :: "string \<Rightarrow> CarController \<Rightarrow> CarController" where
  "handleKeyUp code s = s\<lparr>keys := (keys s)(code \<mapsto> False)\<rparr>"

text \<open>\<^verbatim>\<open>updateBoundingBox\<close>: \<open>sfo\<close> stands for \<^verbatim>\<open>Box3.setFromObject\<close> on the car's group,
  which depends on the car's geometry.\<close>

definition updateBoundingBox :: "(car_mesh \<Rightarrow> box3) \<Rightarrow> CarController \<Rightarrow> CarController" where
  "updateBoundingBox sfo s =
     (case car s of
        None \<Rightarrow> s
      | Some c \<Rightarrow>
          (let b = sfo c;
               center = getCenter b;
               sz = multiplyScalar (getSize b) (8 / 10)
           in s\<lparr>car_boundingBox := setFromCenterAndSize center sz\<rparr>))"

definition initialize :: "(car_mesh \<Rightarrow> box3) \<Rightarrow> car_mesh \<Rightarrow> ControlSettings \<Rightarrow> CarController
    \<Rightarrow> CarController" where
  "initialize sfo carMesh controlSettings s =
     (let p = Vector3 0 (1 / 2) 0
      in updateBoundingBox sfo
           (s\<lparr>car := Some (carMesh\<lparr>mesh_position := p\<rparr>), settings := controlSettings,
              car_position := p\<rparr>))"

definition handleInput :: "real \<Rightarrow> CarController \<Rightarrow> CarController" where
  "handleInput deltaTime s =
     (let inputAcceleration = (if pressed s ''ArrowUp'' \<or> pressed s ''KeyW'' then 1 else 0 :: real);
          inputBraking = (if pressed s ''ArrowDown'' \<or> pressed s ''KeyS'' then 1 else 0 :: real);
          inputSteering =
            (if pressed s ''ArrowLeft'' \<or> pressed s ''KeyA'' then - 1 else 0 :: real)
            + (if pressed s ''ArrowRight'' \<or> pressed s ''KeyD'' then 1 else 0);
          adjustedSteering = inputSteering * sensitivity (settings s);
          finalSteering = (if invertSteering (settings s) then - adjustedSteering else adjustedSteering);
          speed1 =
            (if inputAcceleration > 0 then min (car_speed s + acceleration s * deltaTime) (maxSpeed s)
             else if inputBraking > 0
               then max (car_speed s - deceleration s * deltaTime) (- maxSpeed s * (1 / 2))
             else if car_speed s > 0 then max (car_speed s - deceleration s * (1 / 2) * deltaTime) 0
             else if car_speed s < 0 then min (car_speed s + deceleration s * (1 / 2) * deltaTime) 0
             else car_speed s);
          rotation1 =
            (if \<bar>speed1\<bar> > 1 / 10 \<and> \<bar>finalSteering\<bar> > 1 / 10
             then (let steeringEffect = finalSteering * turnSpeed s * deltaTime;
                       speedFactor = \<bar>speed1\<bar> / maxSpeed s
                   in car_rotation s + steeringEffect * speedFactor)
             else car_rotation s)
      in s\<lparr>car_speed := speed1, car_rotation := rotation1\<rparr>)"

definition updatePhysics :: "real \<Rightarrow> CarController \<Rightarrow> CarController" where
  "updatePhysics deltaTime s =
     (case car s of
        None \<Rightarrow> s
      | Some c \<Rightarrow>
          (let direction = applyAxisAngleY (Vector3 0 0 (- 1)) (car_rotation s);
               velocity = multiplyScalar direction (car_speed s);
               p1 = v_add (car_position s) (multiplyScalar velocity deltaTime);
               p2 = p1\<lparr>vec_x := clamp (vec_x p1) (- 8) 8\<rparr>;
               p3 = p2\<lparr>vec_y := 1 / 2\<rparr>;
               bankingAngle = clamp (vec_x velocity * (- (1 / 10))) (- (3 / 10)) (3 / 10);
               c1 = c\<lparr>mesh_position := p3, mesh_rotation_y := car_rotation s,
                      mesh_rotation_z := lerp (mesh_rotation_z c) bankingAngle (1 / 10)\<rparr>
           in s\<lparr>car_velocity := velocity, car_position := p3, car := Some c1\<rparr>))"

definition updateVisuals :: "real \<Rightarrow> CarController \<Rightarrow> CarController" where
  "updateVisuals deltaTime s =
     (case car s of
        None \<Rightarrow> s
      | Some c \<Rightarrow>
          (let wr = wheelRotation s + car_speed s * deltaTime * 2;
               c1 =
                 (case mesh_wheels c of
                    None \<Rightarrow> c
                  | Some w \<Rightarrow>
                      (let steeringAngle =
                             (if pressed s ''ArrowLeft'' \<or> pressed s ''KeyA'' then - (3 / 10) else 0 :: real)
                             + (if pressed s ''ArrowRight'' \<or> pressed s ''KeyD'' then 3 / 10 else 0)
                       in c\<lparr>mesh_wheels := Some
                            \<lparr>frontLeft = \<lparr>wheel_rotation_x = wr, wheel_rotation_y = steeringAngle\<rparr>,
                             frontRight = \<lparr>wheel_rotation_x = wr, wheel_rotation_y = steeringAngle\<rparr>,
                             rearLeft = (rearLeft w)\<lparr>wheel_rotation_x := wr\<rparr>,
                             rearRight = (rearRight w)\<lparr>wheel_rotation_x := wr\<rparr>\<rparr>\<rparr>))
           in s\<lparr>wheelRotation := wr, car := Some c1, engineSound := \<bar>car_speed s\<bar> / maxSpeed s\<rparr>))"

definition update :: "(car_mesh \<Rightarrow> box3) \<Rightarrow> real \<Rightarrow> CarController \<Rightarrow> CarController" where
  "update sfo deltaTime s =
     (case car s of
        None \<Rightarrow> s
      | Some c \<Rightarrow>
          updateBoundingBox sfo (updateVisuals deltaTime (updatePhysics deltaTime (handleInput deltaTime s))))"

definition handleCollision :: "CarController \<Rightarrow> CarController" where
  "handleCollision s =
     (let speed1 = car_speed s * (3 / 10);
          pushBack = applyAxisAngleY (Vector3 0 0 1) (car_rotation s);
          p1 = v_add (car_position s) (multiplyScalar pushBack 2);
          p2 = p1\<lparr>vec_x := clamp (vec_x p1) (- 8) 8\<rparr>
      in s\<lparr>car_speed := speed1, car_position := p2,
           car := (case car s of None \<Rightarrow> None | Some c \<Rightarrow> Some (c\<lparr>mesh_position := p2\<rparr>))\<rparr>)"

text \<open>The unit vector the car moves along in \<^verbatim>\<open>updatePhysics\<close>, and its length.\<close>

definition heading :: "CarController \<Rightarrow> vec3" where
  "heading s = applyAxisAngleY (Vector3 0 0 (- 1)) (car_rotation s)"

definition v_length :: "vec3 \<Rightarrow> real" where
  "v_length v = sqrt (vec_x v * vec_x v + vec_y v * vec_y v + vec_z v * vec_z v)"

section \<open>ScoreManager.ts\<close>

text \<open>The fields of the class. \<open>storage\<close> is the entry \<^verbatim>\<open>car-racing-high-score\<close> of
  \<^verbatim>\<open>localStorage\<close>, read as a number.\<close>

record ScoreManager =
  score :: int
  highScore :: int
  distance :: real
  lives :: int
  maxLives :: int
  combo :: int
  maxCombo :: int
  lastTime :: real
  gameStartTime :: real
  timeSurvived :: real
  comboTimer :: real
  lastObstacleAvoidanceTime :: real
  storage :: "int option"

definition DISTANCE_MULTIPLIER :: real where "DISTANCE_MULTIPLIER = 10"
definition SPEED_MULTIPLIER :: real where "SPEED_MULTIPLIER = 5"
definition COMBO_MULTIPLIER :: int where "COMBO_MULTIPLIER = 50"
definition TIME_MULTIPLIER :: real where "TIME_MULTIPLIER = 2"
definition OBSTACLE_AVOIDANCE_POINTS :: real where "OBSTACLE_AVOIDANCE_POINTS = 100"
definition COMBO_TIMEOUT :: real where "COMBO_TIMEOUT = 3"

definition new_ScoreManager :: "int option \<Rightarrow> ScoreManager" where
  "new_ScoreManager st =
     \<lparr>score = 0, highScore = 0, distance = 0, lives = 3, maxLives = 3, combo = 0, maxCombo = 0,
      lastTime = 0, gameStartTime = 0, timeSurvived = 0, comboTimer = 0,
      lastObstacleAvoidanceTime = 0, storage = st\<rparr>"

definition resetCombo :: "ScoreManager \<Rightarrow> ScoreManager" where
  "resetCombo s = (if combo s > 0 then s\<lparr>combo := 0, comboTimer := 0\<rparr> else s)"

text \<open>\<^verbatim>\<open>reset()\<close>; \<open>now\<close> is \<^verbatim>\<open>Date.now() / 1000\<close>.\<close>

definition reset :: "real \<Rightarrow> ScoreManager \<Rightarrow> ScoreManager" where
  "reset now s =
     s\<lparr>score := 0, distance := 0, lives := maxLives s, combo := 0, maxCombo := 0,
       timeSurvived := 0, comboTimer := 0, lastObstacleAvoidanceTime := 0, gameStartTime := now\<rparr>"

definition loadHighScore :: "ScoreManager \<Rightarrow> ScoreManager" where
  "loadHighScore s = (case storage s of None \<Rightarrow> s | Some v \<Rightarrow> s\<lparr>highScore := v\<rparr>)"

definition saveHighScore :: "ScoreManager \<Rightarrow> ScoreManager" where
  "saveHighScore s = s\<lparr>storage := Some (highScore s)\<rparr>"

definition sm_initialize :: "real \<Rightarrow> ScoreManager \<Rightarrow> ScoreManager" where
  "sm_initialize now s = reset now (loadHighScore s)"

definition sm_update :: "real \<Rightarrow> real \<Rightarrow> ScoreManager \<Rightarrow> ScoreManager" where
  "sm_update deltaTime carSpeed s =
     (let distanceDelta = \<bar>carSpeed\<bar> * deltaTime;
          score1 = score s + \<lfloor>distanceDelta * DISTANCE_MULTIPLIER\<rfloor>;
          score2 =
            (if carSpeed > 15 then score1 + \<lfloor>(carSpeed - 15) * SPEED_MULTIPLIER * deltaTime\<rfloor>
             else score1);
          score3 = score2 + \<lfloor>TIME_MULTIPLIER * deltaTime\<rfloor>;
          s1 = s\<lparr>timeSurvived := timeSurvived s + deltaTime, comboTimer := comboTimer s - deltaTime,
                 distance := distance s + distanceDelta, score := score3\<rparr>
      in if comboTimer s1 \<le> 0 \<and> combo s1 > 0 then resetCombo s1 else s1)"

text \<open>The factor the \<^verbatim>\<open>switch\<close> of \<^verbatim>\<open>awardObstacleAvoidance\<close> applies for an obstacle type.\<close>

definition typeBonus :: "string \<Rightarrow> real" where
  "typeBonus obstacleType =
     (if obstacleType = ''wall'' then 3 / 2
      else if obstacleType = ''moving_barrier'' then 2
      else if obstacleType = ''narrow_passage'' then 5 / 2
      else 1)"

text \<open>\<^verbatim>\<open>awardObstacleAvoidance(obstacleType, difficulty)\<close>; \<open>currentTime\<close> is
  \<^verbatim>\<open>Date.now() / 1000\<close> at the call.\<close>

definition awardObstacleAvoidance :: "string \<Rightarrow> real \<Rightarrow> real \<Rightarrow> ScoreManager \<Rightarrow> ScoreManager" where
  "awardObstacleAvoidance obstacleType difficulty currentTime s =
     (let points0 = OBSTACLE_AVOIDANCE_POINTS * typeBonus obstacleType * difficulty;
          isCombo = (currentTime - lastObstacleAvoidanceTime s \<le> 2);
          combo1 = (if isCombo then combo s + 1 else 1);
          points = (if isCombo then points0 + of_int (combo1 * COMBO_MULTIPLIER) else points0)
      in s\<lparr>combo := combo1, comboTimer := COMBO_TIMEOUT, maxCombo := max (maxCombo s) combo1,
           score := score s + \<lfloor>points\<rfloor>, lastObstacleAvoidanceTime := currentTime\<rparr>)"

text \<open>\<^verbatim>\<open>loseLife()\<close>; the number it returns is \<open>lives\<close> of the new state.\<close>

definition loseLife :: "ScoreManager \<Rightarrow> ScoreManager" where
  "loseLife s = resetCombo (s\<lparr>lives := max 0 (lives s - 1)\<rparr>)"

definition gainLife :: "ScoreManager \<Rightarrow> ScoreManager" where
  "gainLife s = (if lives s < maxLives s then s\<lparr>lives := lives s + 1\<rparr> else s)"

definition calculateFinalScore :: "ScoreManager \<Rightarrow> int" where
  "calculateFinalScore s =
     (let survivalBonus = \<lfloor>timeSurvived s * 50\<rfloor>;
          distanceMilestones = \<lfloor>distance s / 1000\<rfloor>;
          distanceBonus = distanceMilestones * 1000;
          comboBonus = maxCombo s * 200
      in score s + survivalBonus + distanceBonus + comboBonus)"

text \<open>\<^verbatim>\<open>checkHighScore()\<close>: the new state and the boolean it returns.\<close>

definition checkHighScore :: "ScoreManager \<Rightarrow> ScoreManager \<times> bool" where
  "checkHighScore s =
     (let finalScore = calculateFinalScore s
      in if finalScore > highScore s then (saveHighScore (s\<lparr>highScore := finalScore\<rparr>), True)
         else (s, False))"

text \<open>The mutating calls a client can make on a score manager, and a run of them.\<close>

datatype sm_call =
  Initialize real
  | Update real real
  | Award string real real
  | LoseLife
  | GainLife
  | CheckHighScore
  | Reset real

fun sm_apply :: "sm_call \<Rightarrow> ScoreManager \<Rightarrow> ScoreManager" where
  "sm_apply (Initialize now) s = sm_initialize now s"
| "sm_apply (Update deltaTime carSpeed) s = sm_update deltaTime carSpeed s"
| "sm_apply (Award obstacleType difficulty currentTime) s =
     awardObstacleAvoidance obstacleType difficulty currentTime s"
| "sm_apply LoseLife s = loseLife s"
| "sm_apply GainLife s = gainLife s"
| "sm_apply CheckHighScore s = fst (checkHighScore s)"
| "sm_apply (Reset now) s = reset now s"

definition sm_run :: "sm_call list \<Rightarrow> ScoreManager \<Rightarrow> ScoreManager" where
  "sm_run calls s = fold sm_apply calls s"

section \<open>ObstacleData\<close>

datatype otype = Barrier | Wall | Cone

text \<open>\<^verbatim>\<open>ObstacleData\<close>. The obstacle's \<^verbatim>\<open>THREE.Mesh\<close> is an object shared with the pool, so
  the record holds a handle \<open>'m\<close> to it; \<open>speed\<close> and \<open>direction\<close> are optional.\<close>

record 'm ObstacleData =
  ob_mesh :: 'm
  ob_type :: otype
  ob_position :: vec3
  ob_boundingBox :: box3
  isActive :: bool
  ob_speed :: "real option"
  ob_direction :: "vec3 option"

section \<open>CollisionDetector.ts\<close>

text \<open>The detector's \<^verbatim>\<open>THREE.Raycaster\<close>: the ray it was last set to and its \<^verbatim>\<open>far\<close> limit.\<close>

record raycaster =
  ray_origin :: vec3
  ray_direction :: vec3
  ray_far :: real

text \<open>One entry of the array \<^verbatim>\<open>raycaster.intersectObject\<close> returns (nearest first).\<close>

record intersection =
  int_distance :: real
  int_point :: vec3
  int_face_normal :: "vec3 option"

record 'm CollisionResult =
  hasCollision :: bool
  cr_obstacle :: "'m ObstacleData option"
  impactPoint :: "vec3 option"
  impactNormal :: "vec3 option"

definition noCollision :: "'m CollisionResult" where
  "noCollision = \<lparr>hasCollision = False, cr_obstacle = None, impactPoint = None, impactNormal = None\<rparr>"

definition directions :: "vec3 list" where
  "directions =
     [Vector3 1 0 0, Vector3 (- 1) 0 0, Vector3 0 0 1, Vector3 0 0 (- 1), Vector3 0 1 0,
      Vector3 0 (- 1) 0]"

text \<open>The \<^verbatim>\<open>for\<close> loop of \<^verbatim>\<open>detailedCollisionCheck\<close> over the ray directions. \<open>io\<close> stands for
  \<^verbatim>\<open>raycaster.intersectObject(mesh, true)\<close> of three.js.\<close>

fun castRays :: "(raycaster \<Rightarrow> 'm \<Rightarrow> intersection list) \<Rightarrow> vec3 \<Rightarrow> real \<Rightarrow> 'm ObstacleData
    \<Rightarrow> raycaster \<Rightarrow> vec3 list \<Rightarrow> 'm CollisionResult \<times> raycaster" where
  "castRays io carCenter maxDistance obstacle rc [] = (noCollision, rc)"
| "castRays io carCenter maxDistance obstacle rc (direction # ds) =
     (let rc1 = rc\<lparr>ray_origin := carCenter, ray_direction := direction\<rparr>
      in case io rc1 (ob_mesh obstacle) of
           [] \<Rightarrow> castRays io carCenter maxDistance obstacle rc1 ds
         | i # _ \<Rightarrow>
             if int_distance i \<le> maxDistance
             then (\<lparr>hasCollision = True, cr_obstacle = Some obstacle,
                    impactPoint = Some (int_point i),
                    impactNormal = Some (case int_face_normal i of None \<Rightarrow> Vector3 0 1 0 | Some n \<Rightarrow> n)\<rparr>,
                   rc1)
             else castRays io carCenter maxDistance obstacle rc1 ds)"

definition detailedCollisionCheck :: "(raycaster \<Rightarrow> 'm \<Rightarrow> intersection list) \<Rightarrow> box3
    \<Rightarrow> 'm ObstacleData \<Rightarrow> raycaster \<Rightarrow> 'm CollisionResult \<times> raycaster" where
  "detailedCollisionCheck io carBoundingBox obstacle rc =
     (let carCenter = getCenter carBoundingBox;
          carSize = getSize carBoundingBox;
          maxDistance = max (max (vec_x carSize) (vec_y carSize)) (vec_z carSize) * (6 / 10)
      in castRays io carCenter maxDistance obstacle rc directions)"

text \<open>\<^verbatim>\<open>checkCollisions\<close>. \<open>sfo\<close> stands for \<^verbatim>\<open>Box3.setFromObject\<close> on an obstacle's mesh. The
  function returns the result, the raycaster as the call leaves it, and the obstacles with the
  bounding boxes the loop has refreshed.\<close>

fun checkCollisions :: "('m \<Rightarrow> box3) \<Rightarrow> (raycaster \<Rightarrow> 'm \<Rightarrow> intersection list) \<Rightarrow> box3
    \<Rightarrow> raycaster \<Rightarrow> 'm ObstacleData list \<Rightarrow> 'm CollisionResult \<times> raycaster \<times> 'm ObstacleData list" where
  "checkCollisions sfo io carBoundingBox rc [] = (noCollision, rc, [])"
| "checkCollisions sfo io carBoundingBox rc (obstacle # rest) =
     (if \<not> isActive obstacle
      then (case checkCollisions sfo io carBoundingBox rc rest of
              (r, rc', rest') \<Rightarrow> (r, rc', obstacle # rest'))
      else
        (let obstacle1 = obstacle\<lparr>ob_boundingBox := sfo (ob_mesh obstacle)\<rparr>
         in if intersectsBox carBoundingBox (ob_boundingBox obstacle1)
            then (case detailedCollisionCheck io carBoundingBox obstacle1 rc of
                    (detailedResult, rc1) \<Rightarrow>
                      if hasCollision detailedResult then (detailedResult, rc1, obstacle1 # rest)
                      else (case checkCollisions sfo io carBoundingBox rc1 rest of
                              (r, rc', rest') \<Rightarrow> (r, rc', obstacle1 # rest')))
            else (case checkCollisions sfo io carBoundingBox rc rest of
                    (r, rc', rest') \<Rightarrow> (r, rc', obstacle1 # rest'))))"

text \<open>Whether the narrow-phase oracles \<open>io\<close> and \<open>io'\<close> give the same answers on the meshes of
  those obstacles of a list that are active and pass the broad phase.\<close>

fun agree_on_broad_hits :: "('m \<Rightarrow> box3) \<Rightarrow> box3 \<Rightarrow> (raycaster \<Rightarrow> 'm \<Rightarrow> intersection list)
    \<Rightarrow> (raycaster \<Rightarrow> 'm \<Rightarrow> intersection list) \<Rightarrow> 'm ObstacleData list \<Rightarrow> bool" where
  "agree_on_broad_hits sfo carBoundingBox io io' [] = True"
| "agree_on_broad_hits sfo carBoundingBox io io' (obstacle # rest) =
     ((if isActive obstacle \<and> intersectsBox carBoundingBox (sfo (ob_mesh obstacle))
       then (\<forall>rc. io rc (ob_mesh obstacle) = io' rc (ob_mesh obstacle)) else True)
      \<and> agree_on_broad_hits sfo carBoundingBox io io' rest)"

subsection \<open>An example scene for the collision detector\<close>

text \<open>Two active obstacles with meshes 0 and 1: the box of mesh 0 is far from the car's box,
  the box of mesh 1 overlaps it. \<open>ex_io far_hit\<close> is a ray test that hits mesh 1 at distance
  0.5, and mesh 0 only when \<open>far_hit\<close> holds.\<close>

definition ex_obstacle :: "nat \<Rightarrow> nat ObstacleData" where
  "ex_obstacle m =
     \<lparr>ob_mesh = m, ob_type = Barrier, ob_position = Vector3 0 1 0,
      ob_boundingBox = \<lparr>box_min = Vector3 0 0 0, box_max = Vector3 0 0 0\<rparr>, isActive = True,
      ob_speed = None, ob_direction = None\<rparr>"

definition ex_sfo :: "nat \<Rightarrow> box3" where
  "ex_sfo m = (if m = 0 then \<lparr>box_min = Vector3 5 0 40, box_max = Vector3 6 1 43\<rparr>
               else \<lparr>box_min = Vector3 0 0 0, box_max = Vector3 1 1 3\<rparr>)"

definition ex_car_box :: box3 where
  "ex_car_box = \<lparr>box_min = Vector3 (- 1) 0 (- 2), box_max = Vector3 1 1 2\<rparr>"

definition ex_io :: "bool \<Rightarrow> raycaster \<Rightarrow> nat \<Rightarrow> intersection list" where
  "ex_io far_hit rc m =
     (if m = 0 \<and> \<not> far_hit then []
      else [\<lparr>int_distance = 1 / 2, int_point = Vector3 0 0 0, int_face_normal = None\<rparr>])"

definition ex_raycaster :: raycaster where
  "ex_raycaster = \<lparr>ray_origin = Vector3 0 0 0, ray_direction = Vector3 0 0 (- 1), ray_far = 1000\<rparr>"

section \<open>The game engine\<close>

text \<open>
  The orchestrator (\<^verbatim>\<open>GameEngine\<close>): its own fields and the browser's queue of requested
  animation frames. The engine's collaborators are separate objects. A tick calls methods on
  them; what those calls give the engine is the input \<open>tick\<close> of a tick. Several of the methods
  the engine calls are defined by no class of the repository; a call of a method its object
  does not define raises a \<^verbatim>\<open>TypeError\<close>. So a method that may be missing is an option in
  \<open>tick\<close> (or a flag, for a method called for its effect only): \<open>None\<close> (\<open>False\<close>) when the
  collaborator does not define it. Rendering, audio and the camera are not modelled.
\<close>

datatype GameState = MENU | PLAYING | PAUSED | GAME_OVER | SETTINGS

record GameStats =
  st_score :: real
  st_distance :: real
  st_speed :: real
  st_lives :: int
  st_combo :: int
  st_obstaclesAvoided :: int
  st_timeElapsed :: real
  st_level :: int

datatype event = StateChange GameState | GameOverEvent GameStats | StatsUpdate GameStats

text \<open>A callback passed to \<^verbatim>\<open>requestAnimationFrame\<close>: the game loop, or the screen shake's
  closure with its \<^verbatim>\<open>shakeTime\<close>.\<close>

datatype callback = GameLoopCallback | ShakeCallback real

record GameEngine =
  gameState :: GameState
  ge_stats :: GameStats
  animationId :: "nat option"
  clock_running :: bool
  frameCount :: int
  lastFPSUpdate :: real
  currentFPS :: int
  events :: "event list"
  pending :: "(nat \<times> callback) list"
  next_handle :: nat

text \<open>
  What one tick gets from its collaborators: \<^verbatim>\<open>clock.getDelta()\<close>,
  \<^verbatim>\<open>carController.getDistanceTraveled()\<close>, \<^verbatim>\<open>carController.getSpeed()\<close>, the number of obstacles
  \<^verbatim>\<open>obstacleManager.getActiveObstacles()\<close> returns, \<^verbatim>\<open>collisionDetector.checkCollision\<close> on the
  car's box and the box of the obstacle at an index, whether \<^verbatim>\<open>obstacleManager.removeObstacle\<close>
  is defined, \<^verbatim>\<open>scoreManager.calculateScore\<close>, whether \<^verbatim>\<open>obstacleManager.increaseDifficulty\<close> is
  defined, and \<^verbatim>\<open>performance.now()\<close>.
\<close>

record tick =
  t_delta :: real
  t_getDistanceTraveled :: "real option"
  t_speed :: real
  t_getActiveObstacles :: "nat option"
  t_checkCollision :: "(nat \<Rightarrow> bool) option"
  t_removeObstacle :: bool
  t_calculateScore :: "(int \<Rightarrow> int \<Rightarrow> int \<Rightarrow> real) option"
  t_increaseDifficulty :: bool
  t_now :: real


text \<open>A call returns with the engine's new state, or raises with the state the engine has
  at that moment.\<close>

datatype error = TypeError string

datatype outcome = Returned GameEngine | Raised error GameEngine

definition state_of :: "outcome \<Rightarrow> GameEngine" where
  "state_of r = (case r of Returned s \<Rightarrow> s | Raised e s \<Rightarrow> s)"

definition requestAnimationFrame :: "callback \<Rightarrow> GameEngine \<Rightarrow> nat \<times> GameEngine" where
  "requestAnimationFrame cb s =
     (next_handle s, s\<lparr>pending := pending s @ [(next_handle s, cb)], next_handle := next_handle s + 1\<rparr>)"

definition cancelAnimationFrame :: "nat \<Rightarrow> GameEngine \<Rightarrow> GameEngine" where
  "cancelAnimationFrame h s = s\<lparr>pending := filter (\<lambda>p. fst p \<noteq> h) (pending s)\<rparr>"



text \<open>The closure \<^verbatim>\<open>shake\<close> of \<^verbatim>\<open>addScreenShake\<close>, called with its current \<^verbatim>\<open>shakeTime\<close>.\<close>

definition shake :: "real \<Rightarrow> GameEngine \<Rightarrow> GameEngine" where
  "shake shakeTime s =
     (if shakeTime < 3 / 10 then snd (requestAnimationFrame (ShakeCallback (shakeTime + 16 / 1000)) s)
      else s)"

definition addScreenShake :: "GameEngine \<Rightarrow> GameEngine" where
  "addScreenShake s = shake 0 s"

text \<open>\<^verbatim>\<open>handleCollision(obstacle)\<close> of the engine: the two assignments to the stats,
  \<^verbatim>\<open>carController.handleCollision()\<close> (defined), the sound, \<^verbatim>\<open>obstacleManager.removeObstacle\<close>,
  the screen shake.\<close>

definition ge_handleCollision :: "tick \<Rightarrow> GameEngine \<Rightarrow> outcome" where
  "ge_handleCollision tk s =
     (let s1 = s\<lparr>ge_stats := (ge_stats s)\<lparr>st_lives := st_lives (ge_stats s) - 1, st_combo := 0\<rparr>\<rparr>
      in if \<not> t_removeObstacle tk then Raised (TypeError ''removeObstacle'') s1
         else Returned (addScreenShake s1))"

text \<open>The \<^verbatim>\<open>for\<close> loop of \<^verbatim>\<open>updateGame\<close> over the active obstacles (by index), with its
  \<^verbatim>\<open>break\<close> after the first collision.\<close>

fun collisionLoop :: "tick \<Rightarrow> nat list \<Rightarrow> GameEngine \<Rightarrow> outcome" where
  "collisionLoop tk [] s = Returned s"
| "collisionLoop tk (i # rest) s =
     (case t_checkCollision tk of
        None \<Rightarrow> Raised (TypeError ''checkCollision'') s
      | Some hits \<Rightarrow> if hits i then ge_handleCollision tk s else collisionLoop tk rest s)"

definition updateFPS :: "real \<Rightarrow> GameEngine \<Rightarrow> GameEngine" where
  "updateFPS now s =
     (let fc = frameCount s + 1
      in if now - lastFPSUpdate s \<ge> 1000
         then s\<lparr>currentFPS := \<lfloor>(of_int fc * 1000) / (now - lastFPSUpdate s) + 1 / 2\<rfloor>,
                frameCount := 0, lastFPSUpdate := now\<rparr>
         else s\<lparr>frameCount := fc\<rparr>)"

definition endGame :: "GameEngine \<Rightarrow> GameEngine" where
  "endGame s =
     (let s1 = s\<lparr>gameState := GAME_OVER, clock_running := False\<rparr>;
          s2 = (case animationId s1 of
                  None \<Rightarrow> s1
                | Some h \<Rightarrow> if h \<noteq> 0 then (cancelAnimationFrame h s1)\<lparr>animationId := None\<rparr> else s1)
      in s2\<lparr>events := events s2 @ [GameOverEvent (ge_stats s2), StateChange (gameState s2)]\<rparr>)"

text \<open>The part of \<^verbatim>\<open>updateGame\<close> after the collision loop: score, level, FPS counter, stats
  notification, game-over check.\<close>

definition finishUpdate :: "tick \<Rightarrow> GameEngine \<Rightarrow> outcome" where
  "finishUpdate tk s =
     (let st = ge_stats s;
          distanceScore = \<lfloor>st_distance st / 10\<rfloor>;
          speedBonus = \<lfloor>st_speed st * 2\<rfloor>
      in case t_calculateScore tk of
           None \<Rightarrow> Raised (TypeError ''calculateScore'') s
         | Some calculateScore \<Rightarrow>
             (let st1 = st\<lparr>st_score := calculateScore distanceScore speedBonus (st_combo st)\<rparr>;
                  newLevel = \<lfloor>st_distance st1 / 1000\<rfloor> + 1;
                  levelUp = (newLevel > st_level st1);
                  st2 = (if levelUp then st1\<lparr>st_level := newLevel\<rparr> else st1);
                  s1 = s\<lparr>ge_stats := st2\<rparr>
              in if levelUp \<and> \<not> t_increaseDifficulty tk
                 then Raised (TypeError ''increaseDifficulty'') s1
                 else (let s2 = updateFPS (t_now tk) s1;
                           s3 = s2\<lparr>events := events s2 @ [StatsUpdate (ge_stats s2)]\<rparr>
                       in Returned (if st_lives (ge_stats s3) \<le> 0 then endGame s3 else s3))))"

text \<open>\<^verbatim>\<open>updateGame(deltaTime)\<close>. The calls \<^verbatim>\<open>carController.update\<close> and
  \<^verbatim>\<open>obstacleManager.update\<close> at its start are defined and change only the collaborators.\<close>

definition updateGame :: "tick \<Rightarrow> GameEngine \<Rightarrow> outcome" where
  "updateGame tk s =
     (let s0 = s\<lparr>ge_stats := (ge_stats s)\<lparr>st_timeElapsed := st_timeElapsed (ge_stats s) + t_delta tk\<rparr>\<rparr>
      in case t_getDistanceTraveled tk of
           None \<Rightarrow> Raised (TypeError ''getDistanceTraveled'') s0
         | Some d \<Rightarrow>
             (let s1 = s0\<lparr>ge_stats := (ge_stats s0)\<lparr>st_distance := d, st_speed := t_speed tk\<rparr>\<rparr>
              in case t_getActiveObstacles tk of
                   None \<Rightarrow> Raised (TypeError ''getActiveObstacles'') s1
                 | Some n \<Rightarrow>
                     (case collisionLoop tk [0 ..< n] s1 of
                        Raised e s2 \<Rightarrow> Raised e s2
                      | Returned s2 \<Rightarrow> finishUpdate tk s2)))"

text \<open>\<^verbatim>\<open>gameLoop()\<close>: an exception of \<^verbatim>\<open>updateGame\<close> leaves the function before \<^verbatim>\<open>render\<close> and
  \<^verbatim>\<open>requestAnimationFrame\<close>.\<close>

definition gameLoop :: "tick \<Rightarrow> GameEngine \<Rightarrow> outcome" where
  "gameLoop tk s =
     (if gameState s \<noteq> PLAYING then Returned s
      else (case updateGame tk s of
              Raised e s1 \<Rightarrow> Raised e s1
            | Returned s1 \<Rightarrow>
                (case requestAnimationFrame GameLoopCallback s1 of
                   (h, s2) \<Rightarrow> Returned (s2\<lparr>animationId := Some h\<rparr>))))"


definition pauseGame :: "GameEngine \<Rightarrow> GameEngine" where
  "pauseGame s =
     (if gameState s = PLAYING
      then (let s1 = s\<lparr>gameState := PAUSED, clock_running := False\<rparr>
            in s1\<lparr>events := events s1 @ [StateChange (gameState s1)]\<rparr>)
      else s)"

definition resumeGame :: "tick \<Rightarrow> GameEngine \<Rightarrow> outcome" where
  "resumeGame tk s =
     (if gameState s = PAUSED
      then (let s1 = s\<lparr>gameState := PLAYING, clock_running := True\<rparr>
            in gameLoop tk (s1\<lparr>events := events s1 @ [StateChange (gameState s1)]\<rparr>))
      else Returned s)"

text \<open>The browser runs the oldest requested animation frame; \<open>tk\<close> is what a game tick run by
  that frame would get. An exception of the callback ends the callback, not the page.\<close>

definition fire :: "tick \<Rightarrow> GameEngine \<Rightarrow> GameEngine" where
  "fire tk s =
     (case pending s of
        [] \<Rightarrow> s
      | (h, cb) # rest \<Rightarrow>
          (case cb of
             GameLoopCallback \<Rightarrow> state_of (gameLoop tk (s\<lparr>pending := rest\<rparr>))
           | ShakeCallback shakeTime \<Rightarrow> shake shakeTime (s\<lparr>pending := rest\<rparr>)))"


subsection \<open>An example: the last life\<close>




section \<open>The obstacle manager\<close>

text \<open>
  An obstacle's \<^verbatim>\<open>THREE.Mesh\<close> as the manager uses it: visibility, position and the x scale.
  The meshes live in the pools; an \<^verbatim>\<open>ObstacleData\<close> refers to its mesh by the pool's type
  and the index in that pool's array.
\<close>

record mesh =
  visible :: bool
  m_position :: vec3
  m_scale_x :: real

type_synonym mesh_ref = "otype \<times> nat"

text \<open>
  The fields of \<^verbatim>\<open>ObstacleManager\<close>. \<open>scene\<close> is \<open>None\<close> for \<^verbatim>\<open>null\<close>, else the obstacle meshes
  that are children of the scene. \<open>rnd\<close> is the sequence of values \<^verbatim>\<open>Math.random()\<close> returns
  and \<open>rnd_used\<close> counts the calls made so far.
\<close>

record ObstacleManager =
  scene :: "mesh_ref set option"
  obstacles :: "mesh_ref ObstacleData list"
  obstaclePool :: "otype \<Rightarrow> mesh list option"
  spawnDistance :: real
  despawnDistance :: real
  lastSpawnZ :: real
  difficulty :: real
  timeSinceStart :: real
  rnd :: "nat \<Rightarrow> real"
  rnd_used :: nat

definition new_ObstacleManager :: "(nat \<Rightarrow> real) \<Rightarrow> ObstacleManager" where
  "new_ObstacleManager r =
     \<lparr>scene = None, obstacles = [], obstaclePool = (\<lambda>t. None), spawnDistance = 100,
      despawnDistance = - 50, lastSpawnZ = 50, difficulty = 1, timeSinceStart = 0,
      rnd = r, rnd_used = 0\<rparr>"

text \<open>\<^verbatim>\<open>Math.random()\<close>.\<close>

definition draw :: "ObstacleManager \<Rightarrow> real \<times> ObstacleManager" where
  "draw s = (rnd s (rnd_used s), s\<lparr>rnd_used := rnd_used s + 1\<rparr>)"

text \<open>\<^verbatim>\<open>ThreeUtils.createObstacleGeometry(type)\<close> followed by \<^verbatim>\<open>visible = false\<close>; the half
  extents of the three geometries (boxes of 0.5 x 1 x 3 and 8 x 2 x 1, a cone of radius 0.5
  and height 1.5 with 8 segments); and \<^verbatim>\<open>Box3.setFromObject\<close> for such a mesh.\<close>

definition createObstacleGeometry :: "otype \<Rightarrow> mesh" where
  "createObstacleGeometry ty =
     \<lparr>visible = True, m_position = Vector3 0 (if ty = Cone then 3 / 4 else 1) 0, m_scale_x = 1\<rparr>"

definition halfExtent :: "otype \<Rightarrow> vec3" where
  "halfExtent ty =
     (case ty of Barrier \<Rightarrow> Vector3 (1 / 4) (1 / 2) (3 / 2)
      | Wall \<Rightarrow> Vector3 4 1 (1 / 2)
      | Cone \<Rightarrow> Vector3 (1 / 2) (3 / 4) (1 / 2))"

definition setFromObject :: "otype \<Rightarrow> mesh \<Rightarrow> box3" where
  "setFromObject ty m =
     (let h = halfExtent ty; h' = h\<lparr>vec_x := vec_x h * \<bar>m_scale_x m\<bar>\<rparr>
      in \<lparr>box_min = v_sub (m_position m) h', box_max = v_add (m_position m) h'\<rparr>)"

definition createObstaclePool :: "ObstacleManager \<Rightarrow> ObstacleManager" where
  "createObstaclePool s =
     (let poolSize = 20;
          make = (\<lambda>ty. replicate poolSize ((createObstacleGeometry ty)\<lparr>visible := False\<rparr>))
      in fold (\<lambda>ty s'. s'\<lparr>obstaclePool := (obstaclePool s')(ty \<mapsto> make ty)\<rparr>) [Barrier, Wall, Cone] s)"

text \<open>\<^verbatim>\<open>pool.find(obj => !obj.visible)\<close>, as the index of the mesh found.\<close>

fun find_free :: "mesh list \<Rightarrow> nat option" where
  "find_free [] = None"
| "find_free (m # ms) = (if \<not> visible m then Some 0 else map_option Suc (find_free ms))"

definition getObstacleFromPool :: "otype \<Rightarrow> ObstacleManager \<Rightarrow> nat option" where
  "getObstacleFromPool ty s =
     (case obstaclePool s ty of None \<Rightarrow> None | Some pool \<Rightarrow> find_free pool)"

text \<open>An assignment to fields of the mesh a handle refers to.\<close>

definition update_mesh :: "mesh_ref \<Rightarrow> (mesh \<Rightarrow> mesh) \<Rightarrow> ObstacleManager \<Rightarrow> ObstacleManager" where
  "update_mesh r f s =
     (case obstaclePool s (fst r) of
        None \<Rightarrow> s
      | Some pool \<Rightarrow>
          if snd r < length pool
          then s\<lparr>obstaclePool := (obstaclePool s)(fst r \<mapsto> pool[snd r := f (pool ! snd r)])\<rparr>
          else s)"

definition lookup_mesh :: "mesh_ref \<Rightarrow> ObstacleManager \<Rightarrow> mesh option" where
  "lookup_mesh r s =
     (case obstaclePool s (fst r) of
        None \<Rightarrow> None
      | Some pool \<Rightarrow> if snd r < length pool then Some (pool ! snd r) else None)"

definition returnObstacleToPool :: "mesh_ref \<Rightarrow> ObstacleManager \<Rightarrow> ObstacleManager" where
  "returnObstacleToPool r s =
     update_mesh r (\<lambda>m. m\<lparr>visible := False, m_position := Vector3 0 (- 100) 0\<rparr>) s"

definition scene_remove :: "mesh_ref \<Rightarrow> ObstacleManager \<Rightarrow> ObstacleManager" where
  "scene_remove r s = (case scene s of None \<Rightarrow> s | Some sc \<Rightarrow> s\<lparr>scene := Some (sc - {r})\<rparr>)"

text \<open>\<^verbatim>\<open>createObstacle(type, x, z)\<close>. The \<^verbatim>\<open>ObstacleData\<close> it returns is the object it has
  pushed onto \<^verbatim>\<open>obstacles\<close>; the model returns that object's index in the array.\<close>

definition createObstacle :: "otype \<Rightarrow> real \<Rightarrow> real \<Rightarrow> ObstacleManager \<Rightarrow> nat option \<times> ObstacleManager" where
  "createObstacle ty x z s =
     (case scene s of
        None \<Rightarrow> (None, s)
      | Some sc \<Rightarrow>
          (case getObstacleFromPool ty s of
             None \<Rightarrow> (None, s)
           | Some i \<Rightarrow>
               (let s1 = update_mesh (ty, i)
                           (\<lambda>m. m\<lparr>m_position := Vector3 x (if ty = Cone then 3 / 4 else 1) z,
                                  visible := True\<rparr>) s;
                    s2 = s1\<lparr>scene := Some (insert (ty, i) sc)\<rparr>
                in case lookup_mesh (ty, i) s2 of
                     None \<Rightarrow> (None, s)
                   | Some m \<Rightarrow>
                       (let obstacleData =
                              \<lparr>ob_mesh = (ty, i), ob_type = ty, ob_position = m_position m,
                               ob_boundingBox = setFromObject ty m, isActive = True,
                               ob_speed = None, ob_direction = None\<rparr>
                        in (Some (length (obstacles s2)),
                            s2\<lparr>obstacles := obstacles s2 @ [obstacleData]\<rparr>)))))"

text \<open>An assignment to fields of the \<^verbatim>\<open>ObstacleData\<close> at an index of \<^verbatim>\<open>obstacles\<close>.\<close>

definition update_obstacle :: "nat \<Rightarrow> (mesh_ref ObstacleData \<Rightarrow> mesh_ref ObstacleData)
    \<Rightarrow> ObstacleManager \<Rightarrow> ObstacleManager" where
  "update_obstacle i f s =
     (if i < length (obstacles s) then s\<lparr>obstacles := (obstacles s)[i := f (obstacles s ! i)]\<rparr>
      else s)"

definition spawnSingleBarrier :: "real \<Rightarrow> ObstacleManager \<Rightarrow> ObstacleManager" where
  "spawnSingleBarrier z s =
     (case draw s of (r, s1) \<Rightarrow> snd (createObstacle Barrier (random r (- 6) 6) z s1))"

definition spawnDoubleBarrier :: "real \<Rightarrow> ObstacleManager \<Rightarrow> ObstacleManager" where
  "spawnDoubleBarrier z s =
     (case draw s of (r1, s1) \<Rightarrow>
      case draw s1 of (r2, s2) \<Rightarrow>
        (let gap = random r1 4 6;
             centerX = random r2 (- 3) 3;
             s3 = snd (createObstacle Barrier (centerX - gap / 2) z s2)
         in snd (createObstacle Barrier (centerX + gap / 2) z s3)))"

text \<open>\<^verbatim>\<open>wall.mesh.scale.x = 0.5\<close> for the wall at index \<open>i\<close> of \<^verbatim>\<open>obstacles\<close>.\<close>

definition shorten_wall :: "nat \<Rightarrow> ObstacleManager \<Rightarrow> ObstacleManager" where
  "shorten_wall i s =
     (if i < length (obstacles s)
      then update_mesh (ob_mesh (obstacles s ! i)) (\<lambda>m. m\<lparr>m_scale_x := 1 / 2\<rparr>) s
      else s)"

definition spawnWallGap :: "real \<Rightarrow> ObstacleManager \<Rightarrow> ObstacleManager" where
  "spawnWallGap z s =
     (case draw s of (r1, s1) \<Rightarrow>
      case draw s1 of (r2, s2) \<Rightarrow>
        (let gapCenter = random r1 (- 4) 4;
             gapWidth = random r2 3 5;
             s3 = (if gapCenter - gapWidth / 2 > - 8
                   then (case createObstacle Wall (gapCenter - gapWidth / 2 - 4) z s2 of
                           (None, s') \<Rightarrow> s'
                         | (Some leftWall, s') \<Rightarrow> shorten_wall leftWall s')
                   else s2)
         in if gapCenter + gapWidth / 2 < 8
            then (case createObstacle Wall (gapCenter + gapWidth / 2 + 4) z s3 of
                    (None, s') \<Rightarrow> s'
                  | (Some rightWall, s') \<Rightarrow> shorten_wall rightWall s')
            else s3))"

text \<open>One pass of the \<^verbatim>\<open>for\<close> loop of \<^verbatim>\<open>spawnConeSlalom\<close>, and the loop over
  \<open>i = 0, \<dots>, numCones - 1\<close>.\<close>

definition coneStep :: "real \<Rightarrow> nat \<Rightarrow> ObstacleManager \<Rightarrow> ObstacleManager" where
  "coneStep z i s =
     (case draw s of (r, s1) \<Rightarrow>
        (let x = (if i mod 2 = 0 then - 3 else 3) + random r (- 1) 1
         in snd (createObstacle Cone x (z + of_nat i * 8) s1)))"

definition spawnConeSlalom :: "real \<Rightarrow> ObstacleManager \<Rightarrow> ObstacleManager" where
  "spawnConeSlalom z s =
     (let numCones = 3 + \<lfloor>difficulty s\<rfloor>
      in fold (coneStep z) [0 ..< nat numCones] s)"

definition spawnNarrowPassage :: "real \<Rightarrow> ObstacleManager \<Rightarrow> ObstacleManager" where
  "spawnNarrowPassage z s =
     (let passageWidth = max 3 (5 - difficulty s);
          s1 = snd (createObstacle Barrier (- passageWidth / 2 - 1) z s);
          s2 = snd (createObstacle Barrier (passageWidth / 2 + 1) z s1);
          s3 = snd (createObstacle Barrier (- passageWidth / 2 - 1) (z + 5) s2)
      in snd (createObstacle Barrier (passageWidth / 2 + 1) (z + 5) s3))"

text \<open>The two assignments \<^verbatim>\<open>barrier.speed = MathUtils.random(2, 4)\<close> and
  \<^verbatim>\<open>barrier.direction = new THREE.Vector3(dx, 0, 0)\<close> under \<^verbatim>\<open>if (barrier)\<close>.\<close>

definition set_moving :: "nat option \<Rightarrow> real \<Rightarrow> ObstacleManager \<Rightarrow> ObstacleManager" where
  "set_moving barrier dx s =
     (case barrier of
        None \<Rightarrow> s
      | Some i \<Rightarrow>
          (case draw s of (r, s1) \<Rightarrow>
             update_obstacle i
               (\<lambda>ob. ob\<lparr>ob_speed := Some (random r 2 4), ob_direction := Some (Vector3 dx 0 0)\<rparr>) s1))"

definition spawnMovingBarriers :: "real \<Rightarrow> ObstacleManager \<Rightarrow> ObstacleManager" where
  "spawnMovingBarriers z s =
     (case createObstacle Barrier (- 4) z s of (leftBarrier, s1) \<Rightarrow>
      case createObstacle Barrier 4 z s1 of (rightBarrier, s2) \<Rightarrow>
        set_moving rightBarrier (- 1) (set_moving leftBarrier 1 s2))"

text \<open>\<^verbatim>\<open>spawnObstaclePattern(z)\<close>: the index \<open>\<lfloor>random \<times> 6\<rfloor>\<close> selects one of the six patterns in
  the order of the \<^verbatim>\<open>patterns\<close> array.\<close>

definition spawnObstaclePattern :: "real \<Rightarrow> ObstacleManager \<Rightarrow> ObstacleManager" where
  "spawnObstaclePattern z s =
     (case scene s of
        None \<Rightarrow> s
      | Some sc \<Rightarrow>
          (case draw s of (r, s1) \<Rightarrow>
             (let patternIndex = \<lfloor>r * 6\<rfloor>
              in if patternIndex = 0 then spawnSingleBarrier z s1
                 else if patternIndex = 1 then spawnDoubleBarrier z s1
                 else if patternIndex = 2 then spawnWallGap z s1
                 else if patternIndex = 3 then spawnConeSlalom z s1
                 else if patternIndex = 4 then spawnNarrowPassage z s1
                 else if patternIndex = 5 then spawnMovingBarriers z s1
                 else s1)))"

text \<open>\<^verbatim>\<open>spawnInitialObstacles\<close>: the loop \<^verbatim>\<open>for (z = 20; z < 100; z += 15)\<close>.\<close>

definition spawnInitialObstacles :: "ObstacleManager \<Rightarrow> ObstacleManager" where
  "spawnInitialObstacles s = fold spawnObstaclePattern [20, 35, 50, 65, 80, 95] s"

text \<open>\<^verbatim>\<open>initialize(scene)\<close>; the scene's other children are not modelled.\<close>

definition om_initialize :: "ObstacleManager \<Rightarrow> ObstacleManager" where
  "om_initialize s = spawnInitialObstacles (createObstaclePool (s\<lparr>scene := Some {}\<rparr>))"

definition updateDifficulty :: "ObstacleManager \<Rightarrow> ObstacleManager" where
  "updateDifficulty s = s\<lparr>difficulty := min (1 + timeSinceStart s / 30) 5\<rparr>"

text \<open>The \<^verbatim>\<open>filter\<close> of \<^verbatim>\<open>cleanupObstacles\<close> with its side effects: the obstacles kept, and the
  manager after the removed meshes have gone back to the pool.\<close>

fun cleanupLoop :: "real \<Rightarrow> mesh_ref ObstacleData list \<Rightarrow> ObstacleManager
    \<Rightarrow> mesh_ref ObstacleData list \<times> ObstacleManager" where
  "cleanupLoop limit [] s = ([], s)"
| "cleanupLoop limit (obstacle # rest) s =
     (if vec_z (ob_position obstacle) < limit
      then cleanupLoop limit rest (returnObstacleToPool (ob_mesh obstacle) (scene_remove (ob_mesh obstacle) s))
      else (case cleanupLoop limit rest s of (kept, s') \<Rightarrow> (obstacle # kept, s')))"

definition cleanupObstacles :: "vec3 \<Rightarrow> ObstacleManager \<Rightarrow> ObstacleManager" where
  "cleanupObstacles carPosition s =
     (case cleanupLoop (vec_z carPosition + despawnDistance s) (obstacles s) s of
        (kept, s') \<Rightarrow> s'\<lparr>obstacles := kept\<rparr>)"

text \<open>The body of the \<^verbatim>\<open>while\<close> loop of \<^verbatim>\<open>spawnObstacles\<close>, and the loop. The loop need not
  end for every state, so it returns an option.\<close>

definition spawnStep :: "ObstacleManager \<Rightarrow> ObstacleManager" where
  "spawnStep s =
     (case draw s of (r, s1) \<Rightarrow>
        (let s2 = s1\<lparr>lastSpawnZ := lastSpawnZ s1 + random r 10 (20 / difficulty s1)\<rparr>
         in spawnObstaclePattern (lastSpawnZ s2) s2))"

partial_function (option) spawnLoop :: "real \<Rightarrow> ObstacleManager \<Rightarrow> ObstacleManager option" where
  "spawnLoop spawnZ s = (if lastSpawnZ s < spawnZ then spawnLoop spawnZ (spawnStep s) else Some s)"

definition spawnObstacles :: "vec3 \<Rightarrow> ObstacleManager \<Rightarrow> ObstacleManager option" where
  "spawnObstacles carPosition s = spawnLoop (vec_z carPosition + spawnDistance s) s"

text \<open>The \<^verbatim>\<open>forEach\<close> of \<^verbatim>\<open>updateMovingObstacles\<close>. \<^verbatim>\<open>obstacle.speed && obstacle.direction\<close> holds
  when both are set and the speed is not 0.\<close>

fun moveLoop :: "real \<Rightarrow> mesh_ref ObstacleData list \<Rightarrow> ObstacleManager
    \<Rightarrow> mesh_ref ObstacleData list \<times> ObstacleManager" where
  "moveLoop deltaTime [] s = ([], s)"
| "moveLoop deltaTime (obstacle # rest) s =
     (case (ob_speed obstacle, ob_direction obstacle, lookup_mesh (ob_mesh obstacle) s) of
        (Some v, Some d, Some m) \<Rightarrow>
          if v \<noteq> 0
          then (let movement = multiplyScalar d (v * deltaTime);
                    p = v_add (m_position m) movement;
                    m1 = m\<lparr>m_position := p\<rparr>;
                    s1 = update_mesh (ob_mesh obstacle) (\<lambda>_. m1) s;
                    d1 = (if vec_x p > 7 \<or> vec_x p < - 7 then d\<lparr>vec_x := vec_x d * (- 1)\<rparr> else d);
                    obstacle1 = obstacle\<lparr>ob_position := p, ob_direction := Some d1,
                                  ob_boundingBox := setFromObject (fst (ob_mesh obstacle)) m1\<rparr>
                in case moveLoop deltaTime rest s1 of (rest', s') \<Rightarrow> (obstacle1 # rest', s'))
          else (case moveLoop deltaTime rest s of (rest', s') \<Rightarrow> (obstacle # rest', s'))
      | _ \<Rightarrow> (case moveLoop deltaTime rest s of (rest', s') \<Rightarrow> (obstacle # rest', s')))"

definition updateMovingObstacles :: "real \<Rightarrow> ObstacleManager \<Rightarrow> ObstacleManager" where
  "updateMovingObstacles deltaTime s =
     (case moveLoop deltaTime (obstacles s) s of (obs', s') \<Rightarrow> s'\<lparr>obstacles := obs'\<rparr>)"

definition om_update :: "real \<Rightarrow> vec3 \<Rightarrow> ObstacleManager \<Rightarrow> ObstacleManager option" where
  "om_update deltaTime carPosition s =
     (let s1 = updateDifficulty (s\<lparr>timeSinceStart := timeSinceStart s + deltaTime\<rparr>);
          s2 = cleanupObstacles carPosition s1
      in map_option (updateMovingObstacles deltaTime) (spawnObstacles carPosition s2))"

definition getObstacles :: "ObstacleManager \<Rightarrow> mesh_ref ObstacleData list" where
  "getObstacles s = filter isActive (obstacles s)"

definition getActiveObstacleCount :: "ObstacleManager \<Rightarrow> nat" where
  "getActiveObstacleCount s = length (obstacles s)"

definition om_reset :: "ObstacleManager \<Rightarrow> ObstacleManager" where
  "om_reset s =
     (let s1 = fold (\<lambda>obstacle s'. returnObstacleToPool (ob_mesh obstacle) (scene_remove (ob_mesh obstacle) s'))
                 (obstacles s) s
      in spawnInitialObstacles
           (s1\<lparr>obstacles := [], lastSpawnZ := 50, difficulty := 1, timeSinceStart := 0\<rparr>))"

text \<open>A session of an obstacle manager: \<^verbatim>\<open>initialize\<close> once, then any sequence of
  \<^verbatim>\<open>update\<close> and \<^verbatim>\<open>reset\<close> calls.\<close>

datatype om_call = OmUpdate real vec3 | OmReset

fun om_apply :: "om_call \<Rightarrow> ObstacleManager \<Rightarrow> ObstacleManager option" where
  "om_apply (OmUpdate deltaTime carPosition) s = om_update deltaTime carPosition s"
| "om_apply OmReset s = Some (om_reset s)"

fun om_run :: "om_call list \<Rightarrow> ObstacleManager \<Rightarrow> ObstacleManager option" where
  "om_run [] s = Some s"
| "om_run (c # cs) s = (case om_apply c s of None \<Rightarrow> None | Some s' \<Rightarrow> om_run cs s')"

definition session :: "(nat \<Rightarrow> real) \<Rightarrow> om_call list \<Rightarrow> ObstacleManager option" where
  "session r calls = om_run calls (om_initialize (new_ObstacleManager r))"

text \<open>\<^verbatim>\<open>Math.random()\<close> returns values in \<open>[0, 1)\<close>.\<close>

definition rnd_ok :: "(nat \<Rightarrow> real) \<Rightarrow> bool" where
  "rnd_ok r \<longleftrightarrow> (\<forall>n. 0 \<le> r n \<and> r n < 1)"

text \<open>The time steps of the \<^verbatim>\<open>update\<close> calls of a session are not negative.\<close>

fun steps_nonneg :: "om_call list \<Rightarrow> bool" where
  "steps_nonneg [] = True"
| "steps_nonneg (OmUpdate deltaTime carPosition # cs) = (0 \<le> deltaTime \<and> steps_nonneg cs)"
| "steps_nonneg (OmReset # cs) = steps_nonneg cs"

text \<open>The pools' capacity: 20 slots for each of the 3 types.\<close>

definition poolSize :: nat where "poolSize = 20"
definition typeCount :: nat where "typeCount = 3"

subsection \<open>Invariants of the obstacle manager\<close>

text \<open>The fields that only \<^verbatim>\<open>update\<close> and \<^verbatim>\<open>reset\<close> themselves assign (and whether the scene is
  set) are the same in \<open>s\<close> and \<open>s'\<close>.\<close>

definition frame :: "ObstacleManager \<Rightarrow> ObstacleManager \<Rightarrow> bool" where
  "frame s s' \<longleftrightarrow>
     lastSpawnZ s' = lastSpawnZ s \<and> difficulty s' = difficulty s \<and> rnd s' = rnd s
     \<and> spawnDistance s' = spawnDistance s \<and> despawnDistance s' = despawnDistance s
     \<and> timeSinceStart s' = timeSinceStart s \<and> (scene s' = None) = (scene s = None)"

text \<open>A handle is live when it names a visible mesh of a pool.\<close>

definition live :: "ObstacleManager \<Rightarrow> mesh_ref \<Rightarrow> bool" where
  "live s r =
     (case obstaclePool s (fst r) of
        None \<Rightarrow> False
      | Some pool \<Rightarrow> snd r < length pool \<and> visible (pool ! snd r))"

definition pools_bounded :: "ObstacleManager \<Rightarrow> bool" where
  "pools_bounded s \<longleftrightarrow>
     list_all (\<lambda>ty. case obstaclePool s ty of None \<Rightarrow> True | Some pool \<Rightarrow> length pool \<le> poolSize)
       [Barrier, Wall, Cone]"

text \<open>The obstacles of the manager refer to pairwise different, live meshes.\<close>

definition refs_ok :: "ObstacleManager \<Rightarrow> mesh_ref list \<Rightarrow> bool" where
  "refs_ok s refs \<longleftrightarrow> distinct refs \<and> list_all (live s) refs"

definition om_inv :: "ObstacleManager \<Rightarrow> bool" where
  "om_inv s \<longleftrightarrow> pools_bounded s \<and> refs_ok s (map ob_mesh (obstacles s))"

subsection \<open>Example data for the obstacle manager\<close>

text \<open>Two random sequences (always 0, always 0.5) and a manager whose pools hold only visible
  meshes.\<close>

definition ex_rnd :: "nat \<Rightarrow> real" where "ex_rnd n = 0"

definition ex_full :: ObstacleManager where
  "ex_full =
     (new_ObstacleManager ex_rnd)
       \<lparr>scene := Some {}, obstaclePool := (\<lambda>ty. Some (replicate 20 (createObstacleGeometry ty)))\<rparr>"


subsection \<open>Patterns as the specification lists them\<close>

text \<open>The number of invisible meshes in the pool of a type.\<close>

definition free_count :: "otype \<Rightarrow> ObstacleManager \<Rightarrow> nat" where
  "free_count ty s =
     (case obstaclePool s ty of None \<Rightarrow> 0 | Some pool \<Rightarrow> length (filter (\<lambda>m. \<not> visible m) pool))"







section \<open>Properties of the car controller\<close>

lemma clamp_bounds: "lo \<le> hi \<Longrightarrow> lo \<le> clamp v lo hi \<and> clamp v lo hi \<le> hi"
  by (simp add: clamp_def)

lemma car_handleInput [simp]: "car (handleInput dt s) = car s"
  by (simp add: handleInput_def Let_def)

lemma car_updatePhysics_Some: "car s = Some c \<Longrightarrow> \<exists>c'. car (updatePhysics dt s) = Some c'"
  by (simp add: updatePhysics_def Let_def)

lemma position_updatePhysics:
  "car s = Some c \<Longrightarrow>
     - 8 \<le> vec_x (car_position (updatePhysics dt s)) \<and> vec_x (car_position (updatePhysics dt s)) \<le> 8"
  using clamp_bounds [of "- 8" 8] by (simp add: updatePhysics_def Let_def)

lemma position_updateVisuals [simp]: "car_position (updateVisuals dt s) = car_position s"
  by (simp add: updateVisuals_def Let_def split: option.splits)

lemma position_updateBoundingBox [simp]: "car_position (updateBoundingBox sfo s) = car_position s"
  by (simp add: updateBoundingBox_def Let_def split: option.splits)

text \<open>
  C1. For every \<open>deltaTime \<ge> 0\<close> and every controller whose car handle is set, the lateral
  position after \<^verbatim>\<open>update(deltaTime)\<close> lies in \<open>[-8, 8]\<close>, the half-width the code clamps to.
\<close>

theorem update_lateral_position_clamped:
  assumes "car s \<noteq> None" and "0 \<le> deltaTime"
  shows "- 8 \<le> vec_x (car_position (update sfo deltaTime s))
       \<and> vec_x (car_position (update sfo deltaTime s)) \<le> 8"
proof -
  from assms(1) obtain c where c: "car s = Some c" by auto
  then have "car (handleInput deltaTime s) = Some c" by simp
  from position_updatePhysics [OF this] c show ?thesis
    by (simp add: update_def)
qed

theorem update_lateral_position_clamped_witness:
  "car (handleKeyDown ''ArrowUp''
          ((new_CarController \<lparr>box_min = Vector3 1 1 1, box_max = Vector3 0 0 0\<rparr>)
             \<lparr>car := Some \<lparr>mesh_position = Vector3 0 (1 / 2) 0, mesh_rotation_x = 0,
                  mesh_rotation_y = 0, mesh_rotation_z = 0, mesh_wheels = None\<rparr>,
              car_position := Vector3 8 (1 / 2) 0, car_speed := 20, car_rotation := - (pi / 2)\<rparr>))
     \<noteq> None
   \<and> (0 :: real) \<le> 1 / 60
   \<and> - 8 \<le> vec_x (car_position (update (\<lambda>c. \<lparr>box_min = mesh_position c, box_max = mesh_position c\<rparr>)
        (1 / 60)
        (handleKeyDown ''ArrowUp''
          ((new_CarController \<lparr>box_min = Vector3 1 1 1, box_max = Vector3 0 0 0\<rparr>)
             \<lparr>car := Some \<lparr>mesh_position = Vector3 0 (1 / 2) 0, mesh_rotation_x = 0,
                  mesh_rotation_y = 0, mesh_rotation_z = 0, mesh_wheels = None\<rparr>,
              car_position := Vector3 8 (1 / 2) 0, car_speed := 20, car_rotation := - (pi / 2)\<rparr>))))
   \<and> vec_x (car_position (update (\<lambda>c. \<lparr>box_min = mesh_position c, box_max = mesh_position c\<rparr>)
        (1 / 60)
        (handleKeyDown ''ArrowUp''
          ((new_CarController \<lparr>box_min = Vector3 1 1 1, box_max = Vector3 0 0 0\<rparr>)
             \<lparr>car := Some \<lparr>mesh_position = Vector3 0 (1 / 2) 0, mesh_rotation_x = 0,
                  mesh_rotation_y = 0, mesh_rotation_z = 0, mesh_wheels = None\<rparr>,
              car_position := Vector3 8 (1 / 2) 0, car_speed := 20, car_rotation := - (pi / 2)\<rparr>))))
       \<le> 8"
proof -
  let ?s = "handleKeyDown ''ArrowUp''
          ((new_CarController \<lparr>box_min = Vector3 1 1 1, box_max = Vector3 0 0 0\<rparr>)
             \<lparr>car := Some \<lparr>mesh_position = Vector3 0 (1 / 2) 0, mesh_rotation_x = 0,
                  mesh_rotation_y = 0, mesh_rotation_z = 0, mesh_wheels = None\<rparr>,
              car_position := Vector3 8 (1 / 2) 0, car_speed := 20, car_rotation := - (pi / 2)\<rparr>)"
  have h1: "car ?s \<noteq> None" by (simp add: handleKeyDown_def)
  have h2: "(0 :: real) \<le> 1 / 60" by simp
  from update_lateral_position_clamped [OF h1 h2] h1 h2 show ?thesis by blast
qed

lemma heading_unit: "v_length (heading s) = 1"
  using sin_cos_squared_add3 [of "car_rotation s"]
  by (simp add: v_length_def heading_def applyAxisAngleY_def Vector3_def add.commute)

lemma pushBack_heading:
  "applyAxisAngleY (Vector3 0 0 1) a = multiplyScalar (applyAxisAngleY (Vector3 0 0 (- 1)) a) (- 1)"
  by (simp add: applyAxisAngleY_def Vector3_def multiplyScalar_def)

text \<open>
  C6. \<^verbatim>\<open>handleCollision\<close> multiplies the speed by 0.3, moves the position by \<open>-2\<close> times the
  unit heading vector (two units backward along the heading), clamps the lateral position to
  \<open>[-8, 8]\<close> and copies the new position to the car's mesh (when there is one); every other
  field of the controller keeps its value.
\<close>

theorem handleCollision_effect:
  "handleCollision s =
     (let p = v_add (car_position s) (multiplyScalar (heading s) (- 2));
          p' = p\<lparr>vec_x := clamp (vec_x p) (- 8) 8\<rparr>
      in s\<lparr>car_speed := car_speed s * (3 / 10), car_position := p',
           car := map_option (\<lambda>c. c\<lparr>mesh_position := p'\<rparr>) (car s)\<rparr>)
   \<and> v_length (heading s) = 1
   \<and> - 8 \<le> vec_x (car_position (handleCollision s)) \<and> vec_x (car_position (handleCollision s)) \<le> 8"
proof -
  have eq: "multiplyScalar (applyAxisAngleY (Vector3 0 0 1) (car_rotation s)) 2
          = multiplyScalar (heading s) (- 2)"
    by (simp add: heading_def applyAxisAngleY_def Vector3_def multiplyScalar_def)
  have m: "(case car s of None \<Rightarrow> None | Some c \<Rightarrow> Some (c\<lparr>mesh_position := q\<rparr>))
         = map_option (\<lambda>c. c\<lparr>mesh_position := q\<rparr>) (car s)" for q
    by (cases "car s") simp_all
  have a: "handleCollision s =
     (let p = v_add (car_position s) (multiplyScalar (heading s) (- 2));
          p' = p\<lparr>vec_x := clamp (vec_x p) (- 8) 8\<rparr>
      in s\<lparr>car_speed := car_speed s * (3 / 10), car_position := p',
           car := map_option (\<lambda>c. c\<lparr>mesh_position := p'\<rparr>) (car s)\<rparr>)"
    by (simp only: handleCollision_def eq m Let_def)
  have b: "- 8 \<le> vec_x (car_position (handleCollision s)) \<and> vec_x (car_position (handleCollision s)) \<le> 8"
    using clamp_bounds [of "- 8" 8] by (simp add: handleCollision_def Let_def)
  from a b heading_unit show ?thesis by blast
qed

section \<open>Properties of the score manager\<close>

lemma combo_resetCombo: "0 \<le> combo s \<Longrightarrow> combo (resetCombo s) = 0"
  by (simp add: resetCombo_def)

lemma resetCombo_fields [simp]:
  "lives (resetCombo s) = lives s" "maxLives (resetCombo s) = maxLives s"
  by (simp_all add: resetCombo_def)

lemma combo_resetCombo_nonneg: "0 \<le> combo s \<Longrightarrow> 0 \<le> combo (resetCombo s)"
  by (simp add: resetCombo_def)

lemma sm_apply_combo_nonneg: "0 \<le> combo s \<Longrightarrow> 0 \<le> combo (sm_apply c s)"
  by (cases c)
     (simp_all add: sm_initialize_def reset_def sm_update_def awardObstacleAvoidance_def
        loseLife_def gainLife_def checkHighScore_def saveHighScore_def resetCombo_def Let_def)

lemma sm_run_combo_nonneg: "0 \<le> combo s \<Longrightarrow> 0 \<le> combo (sm_run cs s)"
  unfolding sm_run_def
  by (induction cs arbitrary: s) (simp_all add: sm_apply_combo_nonneg)

lemma sm_apply_lives:
  "0 \<le> lives s \<and> lives s \<le> maxLives s \<Longrightarrow>
     0 \<le> lives (sm_apply c s) \<and> lives (sm_apply c s) \<le> maxLives (sm_apply c s)"
  by (cases c)
     (auto simp add: sm_initialize_def reset_def sm_update_def awardObstacleAvoidance_def
        loseLife_def gainLife_def checkHighScore_def saveHighScore_def loadHighScore_def
        Let_def split: option.splits)

lemma sm_run_lives:
  "0 \<le> lives s \<and> lives s \<le> maxLives s \<Longrightarrow>
     0 \<le> lives (sm_run cs s) \<and> lives (sm_run cs s) \<le> maxLives (sm_run cs s)"
  unfolding sm_run_def
proof (induction cs arbitrary: s)
  case Nil
  then show ?case by simp
next
  case (Cons c cs)
  from Cons.IH [OF sm_apply_lives [OF Cons.prems]] show ?case by simp
qed

lemma sm_apply_maxLives [simp]: "maxLives (sm_apply c s) = maxLives s"
  by (cases c)
     (simp_all add: sm_initialize_def reset_def sm_update_def awardObstacleAvoidance_def
        loseLife_def gainLife_def checkHighScore_def saveHighScore_def loadHighScore_def
        resetCombo_def Let_def split: option.splits)

lemma sm_run_maxLives [simp]: "maxLives (sm_run cs s) = maxLives s"
  unfolding sm_run_def by (induction cs arbitrary: s) simp_all

text \<open>
  C2. In every state \<open>s\<close> a score manager reaches from its construction: an award whose time is
  at most 2.0 after the previous award's raises the combo by exactly one and adds
  \<open>combo \<times> 50\<close> (with the new combo) to the points floored into the score; an award after a gap
  of more than 2.0 sets the combo to 1 and adds no combo bonus; \<^verbatim>\<open>loseLife\<close> leaves the combo
  at 0, whatever the time.
\<close>

theorem combo_rules:
  fixes calls :: "sm_call list" and st :: "int option"
  defines "s \<equiv> sm_run calls (new_ScoreManager st)"
  shows "(t - lastObstacleAvoidanceTime s \<le> 2 \<longrightarrow>
            combo (awardObstacleAvoidance ty d t s) = combo s + 1
            \<and> score (awardObstacleAvoidance ty d t s)
                = score s + \<lfloor>100 * typeBonus ty * d + of_int ((combo s + 1) * 50)\<rfloor>)
       \<and> (t - lastObstacleAvoidanceTime s > 2 \<longrightarrow>
            combo (awardObstacleAvoidance ty d t s) = 1
            \<and> score (awardObstacleAvoidance ty d t s) = score s + \<lfloor>100 * typeBonus ty * d\<rfloor>)
       \<and> combo (loseLife s) = 0"
proof -
  have "0 \<le> combo (new_ScoreManager st)" by (simp add: new_ScoreManager_def)
  then have "0 \<le> combo s" unfolding s_def by (rule sm_run_combo_nonneg)
  then have "combo (loseLife s) = 0" by (simp add: loseLife_def resetCombo_def)
  then show ?thesis
    by (simp add: awardObstacleAvoidance_def Let_def OBSTACLE_AVOIDANCE_POINTS_def
        COMBO_MULTIPLIER_def)
qed

theorem combo_rules_witness:
  "combo (awardObstacleAvoidance ''wall'' 2 (1001 + 3 / 2)
            (sm_run [Reset 1000, Award ''cone'' 1 1001] (new_ScoreManager None))) = 2
   \<and> score (awardObstacleAvoidance ''wall'' 2 (1001 + 3 / 2)
            (sm_run [Reset 1000, Award ''cone'' 1 1001] (new_ScoreManager None))) = 100 + 400
   \<and> combo (awardObstacleAvoidance ''wall'' 2 1004
            (sm_run [Reset 1000, Award ''cone'' 1 1001] (new_ScoreManager None))) = 1
   \<and> combo (loseLife (sm_run [Reset 1000, Award ''cone'' 1 1001] (new_ScoreManager None))) = 0"
proof -
  let ?s = "sm_run [Reset 1000, Award ''cone'' 1 1001] (new_ScoreManager None)"
  have f: "lastObstacleAvoidanceTime ?s = 1001" "combo ?s = 1" "score ?s = 100"
    by (simp_all add: sm_run_def reset_def awardObstacleAvoidance_def new_ScoreManager_def
        Let_def typeBonus_def OBSTACLE_AVOIDANCE_POINTS_def COMBO_TIMEOUT_def)
  have w: "typeBonus ''wall'' = 3 / 2" by (simp add: typeBonus_def)
  from combo_rules [of "1001 + 3 / 2" "[Reset 1000, Award ''cone'' 1 1001]" None "''wall''" 2]
       combo_rules [of 1004 "[Reset 1000, Award ''cone'' 1 1001]" None "''wall''" 2]
  show ?thesis by (simp add: f w)
qed

text \<open>
  C7. \<^verbatim>\<open>calculateFinalScore\<close> is monotonically non-decreasing in the running score, in the
  survival time, in the distance and in the max combo, each with the other fields fixed.
\<close>

theorem calculateFinalScore_mono:
  "(a \<le> b \<longrightarrow> calculateFinalScore (s\<lparr>score := a\<rparr>) \<le> calculateFinalScore (s\<lparr>score := b\<rparr>))
   \<and> (t \<le> u \<longrightarrow>
        calculateFinalScore (s\<lparr>timeSurvived := t\<rparr>) \<le> calculateFinalScore (s\<lparr>timeSurvived := u\<rparr>))
   \<and> (x \<le> y \<longrightarrow> calculateFinalScore (s\<lparr>distance := x\<rparr>) \<le> calculateFinalScore (s\<lparr>distance := y\<rparr>))
   \<and> (m \<le> n \<longrightarrow> calculateFinalScore (s\<lparr>maxCombo := m\<rparr>) \<le> calculateFinalScore (s\<lparr>maxCombo := n\<rparr>))"
proof -
  have 1: "t \<le> u \<Longrightarrow> \<lfloor>t * 50\<rfloor> \<le> \<lfloor>u * 50\<rfloor>" for t u :: real
    by (rule floor_mono) simp
  have 2: "x \<le> y \<Longrightarrow> \<lfloor>x / 1000\<rfloor> \<le> \<lfloor>y / 1000\<rfloor>" for x y :: real
    by (rule floor_mono) (simp add: divide_right_mono)
  show ?thesis
    using 1 [of t u] 2 [of x y] by (simp add: calculateFinalScore_def Let_def)
qed

theorem calculateFinalScore_mono_witness:
  "calculateFinalScore ((new_ScoreManager None)\<lparr>score := 10\<rparr>)
     \<le> calculateFinalScore ((new_ScoreManager None)\<lparr>score := 11\<rparr>)
   \<and> calculateFinalScore ((new_ScoreManager None)\<lparr>timeSurvived := 1\<rparr>)
     \<le> calculateFinalScore ((new_ScoreManager None)\<lparr>timeSurvived := 2\<rparr>)
   \<and> calculateFinalScore ((new_ScoreManager None)\<lparr>distance := 999\<rparr>)
     \<le> calculateFinalScore ((new_ScoreManager None)\<lparr>distance := 1000\<rparr>)
   \<and> calculateFinalScore ((new_ScoreManager None)\<lparr>maxCombo := 3\<rparr>)
     \<le> calculateFinalScore ((new_ScoreManager None)\<lparr>maxCombo := 4\<rparr>)"
  using calculateFinalScore_mono [of 10 11 "new_ScoreManager None" 1 2 999 1000 3 4]
  by simp

text \<open>
  C9. From the constructed score manager, after any sequence of calls, the lives stay in
  \<open>[0, maxLives]\<close> (and \<open>maxLives\<close> stays 3). In any state \<^verbatim>\<open>loseLife\<close> takes one life but
  stops at 0, \<^verbatim>\<open>gainLife\<close> adds one only below \<open>maxLives\<close>, and \<^verbatim>\<open>reset\<close> sets the lives to
  \<open>maxLives\<close>.
\<close>

theorem lives_in_range:
  "0 \<le> lives (sm_run calls (new_ScoreManager st))
   \<and> lives (sm_run calls (new_ScoreManager st)) \<le> maxLives (sm_run calls (new_ScoreManager st))
   \<and> maxLives (sm_run calls (new_ScoreManager st)) = 3
   \<and> lives (loseLife s) = max 0 (lives s - 1)
   \<and> 0 \<le> lives (loseLife (loseLife (loseLife (loseLife s))))
   \<and> lives (gainLife s) = (if lives s < maxLives s then lives s + 1 else lives s)
   \<and> lives (reset now s) = maxLives s"
proof -
  have "0 \<le> lives (new_ScoreManager st) \<and> lives (new_ScoreManager st) \<le> maxLives (new_ScoreManager st)"
    by (simp add: new_ScoreManager_def)
  from sm_run_lives [OF this]
  have a: "0 \<le> lives (sm_run calls (new_ScoreManager st))
     \<and> lives (sm_run calls (new_ScoreManager st)) \<le> maxLives (sm_run calls (new_ScoreManager st))" .
  have b: "maxLives (sm_run calls (new_ScoreManager st)) = 3"
    by (simp add: new_ScoreManager_def)
  have c: "lives (loseLife s) = max 0 (lives s - 1)" for s
    by (simp add: loseLife_def)
  have d: "lives (gainLife s) = (if lives s < maxLives s then lives s + 1 else lives s)"
    by (simp add: gainLife_def)
  have e: "lives (reset now s) = maxLives s"
    by (simp add: reset_def)
  from a b c d e show ?thesis by (simp add: c)
qed

theorem lives_in_range_witness:
  "lives (sm_run [Reset 5, LoseLife, LoseLife, LoseLife, LoseLife, GainLife] (new_ScoreManager None)) = 1
   \<and> 0 \<le> lives (sm_run [Reset 5, LoseLife, LoseLife, LoseLife, LoseLife] (new_ScoreManager None))
   \<and> lives (sm_run [Reset 5, LoseLife, LoseLife, LoseLife, LoseLife] (new_ScoreManager None)) \<le> 3"
proof -
  have "lives (sm_run [Reset 5, LoseLife, LoseLife, LoseLife, LoseLife, GainLife] (new_ScoreManager None)) = 1"
    by (simp add: sm_run_def reset_def loseLife_def gainLife_def resetCombo_def new_ScoreManager_def)
  moreover have "0 \<le> lives (sm_run [Reset 5, LoseLife, LoseLife, LoseLife, LoseLife] (new_ScoreManager None))
     \<and> lives (sm_run [Reset 5, LoseLife, LoseLife, LoseLife, LoseLife] (new_ScoreManager None)) \<le> 3"
    using lives_in_range [of "[Reset 5, LoseLife, LoseLife, LoseLife, LoseLife]" None
        "new_ScoreManager None" 0]
    by linarith
  ultimately show ?thesis by blast
qed

section \<open>Properties of the collision detector\<close>

lemma castRays_hit:
  "castRays io c d obstacle rc ds = (r, rc') \<Longrightarrow> hasCollision r \<Longrightarrow> cr_obstacle r = Some obstacle"
  by (induction ds arbitrary: rc)
     (auto simp add: noCollision_def Let_def split: list.splits if_splits)

lemma detailedCollisionCheck_hit:
  "detailedCollisionCheck io b obstacle rc = (r, rc') \<Longrightarrow> hasCollision r \<Longrightarrow>
     cr_obstacle r = Some obstacle"
  unfolding detailedCollisionCheck_def Let_def by (rule castRays_hit)

lemma checkCollisions_hit:
  "checkCollisions sfo io b rc obs = (r, rc', obs') \<Longrightarrow> hasCollision r \<Longrightarrow>
     \<exists>obstacle. obstacle \<in> set obs \<and> isActive obstacle
        \<and> intersectsBox b (sfo (ob_mesh obstacle))
        \<and> cr_obstacle r = Some (obstacle\<lparr>ob_boundingBox := sfo (ob_mesh obstacle)\<rparr>)"
proof (induction obs arbitrary: rc r rc' obs')
  case Nil
  then show ?case by (auto simp add: noCollision_def)
next
  case (Cons obstacle rest)
  let ?o1 = "obstacle\<lparr>ob_boundingBox := sfo (ob_mesh obstacle)\<rparr>"
  show ?case
  proof (cases "isActive obstacle \<and> intersectsBox b (sfo (ob_mesh obstacle))")
    case False
    then obtain rest' where "checkCollisions sfo io b rc rest = (r, rc', rest')"
      using Cons.prems(1) by (auto simp add: Let_def split: prod.splits if_splits)
    from Cons.IH [OF this Cons.prems(2)] show ?thesis
      by auto
  next
    case True
    obtain dr rc1 where d: "detailedCollisionCheck io b ?o1 rc = (dr, rc1)"
      by (cases "detailedCollisionCheck io b ?o1 rc")
    show ?thesis
    proof (cases "hasCollision dr")
      case True
      with \<open>isActive obstacle \<and> intersectsBox b (sfo (ob_mesh obstacle))\<close> d Cons.prems(1)
      have "r = dr" by (simp add: Let_def)
      with detailedCollisionCheck_hit [OF d True]
        \<open>isActive obstacle \<and> intersectsBox b (sfo (ob_mesh obstacle))\<close>
      show ?thesis by auto
    next
      case False
      with True d Cons.prems(1)
      obtain rest' where "checkCollisions sfo io b rc1 rest = (r, rc', rest')"
        by (auto simp add: Let_def split: prod.splits)
      from Cons.IH [OF this Cons.prems(2)] show ?thesis
        by auto
    qed
  qed
qed

lemma castRays_cong:
  "(\<And>rc. io rc (ob_mesh obstacle) = io' rc (ob_mesh obstacle)) \<Longrightarrow>
     castRays io c d obstacle rc ds = castRays io' c d obstacle rc ds"
  by (induction ds arbitrary: rc) (simp_all add: Let_def split: list.splits)

lemma checkCollisions_cong:
  "agree_on_broad_hits sfo b io io' obs \<Longrightarrow>
     checkCollisions sfo io b rc obs = checkCollisions sfo io' b rc obs"
proof (induction obs arbitrary: rc)
  case Nil
  then show ?case by simp
next
  case (Cons obstacle rest)
  let ?o1 = "obstacle\<lparr>ob_boundingBox := sfo (ob_mesh obstacle)\<rparr>"
  from Cons.prems have rest: "agree_on_broad_hits sfo b io io' rest" by simp
  note IH = Cons.IH [OF rest]
  show ?case
  proof (cases "isActive obstacle \<and> intersectsBox b (sfo (ob_mesh obstacle))")
    case False
    then show ?thesis by (auto simp add: IH Let_def)
  next
    case True
    with Cons.prems have "\<And>rc. io rc (ob_mesh ?o1) = io' rc (ob_mesh ?o1)" by simp
    then have "detailedCollisionCheck io b ?o1 rc = detailedCollisionCheck io' b ?o1 rc"
      unfolding detailedCollisionCheck_def Let_def by (rule castRays_cong)
    with True show ?thesis by (simp add: IH Let_def split: prod.splits)
  qed
qed

text \<open>
  C5. The broad phase is necessary for a reported collision: when the car's box does not
  intersect the (refreshed) bounding box of an obstacle's mesh, \<^verbatim>\<open>checkCollisions\<close> reports no
  collision with an obstacle of that mesh; a reported obstacle is an active member of the list
  that passes the broad phase. The narrow phase is evaluated only after a broad-phase hit:
  the result, the raycaster and the refreshed obstacles do not depend on what the ray test
  would answer for any obstacle that is inactive or fails the broad phase.
\<close>

theorem broad_phase_necessary:
  "(\<not> intersectsBox carBoundingBox (sfo (ob_mesh obstacle)) \<longrightarrow>
      (\<forall>reported. hasCollision (fst (checkCollisions sfo io carBoundingBox rc obs))
          \<and> cr_obstacle (fst (checkCollisions sfo io carBoundingBox rc obs)) = Some reported
        \<longrightarrow> ob_mesh reported \<noteq> ob_mesh obstacle))
   \<and> (hasCollision (fst (checkCollisions sfo io carBoundingBox rc obs)) \<longrightarrow>
        (\<exists>hit. hit \<in> set obs \<and> isActive hit
           \<and> intersectsBox carBoundingBox (sfo (ob_mesh hit))
           \<and> cr_obstacle (fst (checkCollisions sfo io carBoundingBox rc obs))
               = Some (hit\<lparr>ob_boundingBox := sfo (ob_mesh hit)\<rparr>)))
   \<and> (agree_on_broad_hits sfo carBoundingBox io io' obs \<longrightarrow>
        checkCollisions sfo io carBoundingBox rc obs
          = checkCollisions sfo io' carBoundingBox rc obs)"
proof -
  obtain r rc' obs' where c: "checkCollisions sfo io carBoundingBox rc obs = (r, rc', obs')"
    by (cases "checkCollisions sfo io carBoundingBox rc obs")
  have b: "hasCollision r \<longrightarrow>
        (\<exists>hit. hit \<in> set obs \<and> isActive hit
           \<and> intersectsBox carBoundingBox (sfo (ob_mesh hit))
           \<and> cr_obstacle r = Some (hit\<lparr>ob_boundingBox := sfo (ob_mesh hit)\<rparr>))"
    using checkCollisions_hit [OF c] by blast
  have a: "\<not> intersectsBox carBoundingBox (sfo (ob_mesh obstacle)) \<longrightarrow>
      (\<forall>reported. hasCollision r \<and> cr_obstacle r = Some reported
        \<longrightarrow> ob_mesh reported \<noteq> ob_mesh obstacle)"
  proof (intro impI allI)
    fix reported
    assume n: "\<not> intersectsBox carBoundingBox (sfo (ob_mesh obstacle))"
      and h: "hasCollision r \<and> cr_obstacle r = Some reported"
    with b obtain hit where "intersectsBox carBoundingBox (sfo (ob_mesh hit))"
      and "reported = hit\<lparr>ob_boundingBox := sfo (ob_mesh hit)\<rparr>" by auto
    with n show "ob_mesh reported \<noteq> ob_mesh obstacle" by auto
  qed
  from a b checkCollisions_cong [of sfo carBoundingBox io io' obs rc] c
  show ?thesis by simp
qed

lemma ex_broad_miss: "\<not> intersectsBox ex_car_box (ex_sfo (ob_mesh (ex_obstacle 0)))"
  by (simp add: intersectsBox_def ex_car_box_def ex_sfo_def ex_obstacle_def Vector3_def)

lemma ex_broad_hit: "intersectsBox ex_car_box (ex_sfo (ob_mesh (ex_obstacle 1)))"
  by (simp add: intersectsBox_def ex_car_box_def ex_sfo_def ex_obstacle_def Vector3_def)

lemma ex_checkCollisions:
  "fst (checkCollisions ex_sfo (ex_io True) ex_car_box ex_raycaster [ex_obstacle 0, ex_obstacle 1])
     = \<lparr>hasCollision = True, cr_obstacle = Some ((ex_obstacle 1)\<lparr>ob_boundingBox := ex_sfo 1\<rparr>),
        impactPoint = Some (Vector3 0 0 0), impactNormal = Some (Vector3 0 1 0)\<rparr>"
  using ex_broad_miss ex_broad_hit
  by (simp add: ex_obstacle_def detailedCollisionCheck_def directions_def ex_io_def Let_def
      getSize_def getCenter_def isEmpty_def ex_car_box_def Vector3_def v_sub_def)

lemma ex_agree:
  "agree_on_broad_hits ex_sfo ex_car_box (ex_io True) (ex_io False) [ex_obstacle 0, ex_obstacle 1]"
  using ex_broad_miss ex_broad_hit by (simp add: ex_io_def) (simp add: ex_obstacle_def)

theorem broad_phase_necessary_witness:
  "\<not> intersectsBox ex_car_box (ex_sfo (ob_mesh (ex_obstacle 0)))
   \<and> hasCollision
       (fst (checkCollisions ex_sfo (ex_io True) ex_car_box ex_raycaster [ex_obstacle 0, ex_obstacle 1]))
   \<and> cr_obstacle
       (fst (checkCollisions ex_sfo (ex_io True) ex_car_box ex_raycaster [ex_obstacle 0, ex_obstacle 1]))
       = Some ((ex_obstacle 1)\<lparr>ob_boundingBox := ex_sfo 1\<rparr>)
   \<and> ob_mesh ((ex_obstacle 1)\<lparr>ob_boundingBox := ex_sfo 1\<rparr>) \<noteq> ob_mesh (ex_obstacle 0)
   \<and> agree_on_broad_hits ex_sfo ex_car_box (ex_io True) (ex_io False) [ex_obstacle 0, ex_obstacle 1]
   \<and> checkCollisions ex_sfo (ex_io True) ex_car_box ex_raycaster [ex_obstacle 0, ex_obstacle 1]
       = checkCollisions ex_sfo (ex_io False) ex_car_box ex_raycaster [ex_obstacle 0, ex_obstacle 1]"
proof -
  note t = broad_phase_necessary [of ex_car_box ex_sfo "ex_obstacle 0" "ex_io True" ex_raycaster
      "[ex_obstacle 0, ex_obstacle 1]" "ex_io False"]
  have h: "hasCollision
       (fst (checkCollisions ex_sfo (ex_io True) ex_car_box ex_raycaster [ex_obstacle 0, ex_obstacle 1]))"
    and o: "cr_obstacle
       (fst (checkCollisions ex_sfo (ex_io True) ex_car_box ex_raycaster [ex_obstacle 0, ex_obstacle 1]))
       = Some ((ex_obstacle 1)\<lparr>ob_boundingBox := ex_sfo 1\<rparr>)"
    unfolding ex_checkCollisions by simp_all
  from t ex_broad_miss h o
  have "ob_mesh ((ex_obstacle 1)\<lparr>ob_boundingBox := ex_sfo 1\<rparr>) \<noteq> ob_mesh (ex_obstacle 0)"
    by blast
  moreover from t ex_agree
  have "checkCollisions ex_sfo (ex_io True) ex_car_box ex_raycaster [ex_obstacle 0, ex_obstacle 1]
       = checkCollisions ex_sfo (ex_io False) ex_car_box ex_raycaster [ex_obstacle 0, ex_obstacle 1]"
    by blast
  ultimately show ?thesis using ex_broad_miss h o ex_agree by blast
qed

section \<open>Properties of the game engine\<close>


lemma gameLoop_not_playing: "gameState s \<noteq> PLAYING \<Longrightarrow> gameLoop tk s = Returned s"
  by (simp add: gameLoop_def)





section \<open>Properties of the obstacle manager\<close>

lemma frame_refl [simp]: "frame s s"
  by (simp add: frame_def)

lemma frame_trans: "frame s s1 \<Longrightarrow> frame s1 s2 \<Longrightarrow> frame s s2"
  by (simp add: frame_def)

lemma frame_draw [simp]: "frame s (snd (draw s))"
  by (simp add: frame_def draw_def)

lemma find_free_Some: "find_free pool = Some i \<Longrightarrow> i < length pool \<and> \<not> visible (pool ! i)"
  by (induction pool arbitrary: i) (auto split: if_splits)

lemma find_free_None: "find_free pool = None \<longleftrightarrow> list_all visible pool"
  by (induction pool) auto

lemma frame_update_mesh [simp]: "frame s (update_mesh r f s)"
  by (simp add: frame_def update_mesh_def split: option.splits)

lemma obstacles_update_mesh [simp]: "obstacles (update_mesh r f s) = obstacles s"
  by (simp add: update_mesh_def split: option.splits)

lemma scene_update_mesh [simp]: "scene (update_mesh r f s) = scene s"
  by (simp add: update_mesh_def split: option.splits)

lemma rnd_used_update_mesh [simp]: "rnd_used (update_mesh r f s) = rnd_used s"
  by (simp add: update_mesh_def split: option.splits)

lemma pools_bounded_update_mesh [simp]: "pools_bounded (update_mesh r f s) = pools_bounded s"
  by (cases r; cases "fst r")
     (auto simp add: pools_bounded_def update_mesh_def split: option.splits)

lemma live_update_mesh_other: "r' \<noteq> r \<Longrightarrow> live (update_mesh r f s) r' = live s r'"
  by (cases r; cases r')
     (auto simp add: live_def update_mesh_def split: option.splits)

lemma live_update_mesh_same:
  "live (update_mesh r f s) r =
     (case lookup_mesh r s of None \<Rightarrow> False | Some m \<Rightarrow> visible (f m))"
  by (cases r) (auto simp add: live_def update_mesh_def lookup_mesh_def split: option.splits)

lemma live_update_mesh_keep:
  "(\<And>m. visible (f m) = visible m) \<Longrightarrow> live (update_mesh r f s) r' = live s r'"
  by (cases r; cases r')
     (auto simp add: live_def update_mesh_def nth_list_update split: option.splits)

lemma live_returnObstacleToPool:
  "live (returnObstacleToPool r s) r' = (live s r' \<and> r' \<noteq> r)"
  by (cases r; cases r')
     (auto simp add: returnObstacleToPool_def live_def update_mesh_def nth_list_update
        split: option.splits)


lemma lookup_update_mesh:
  "lookup_mesh r (update_mesh r f s) = map_option f (lookup_mesh r s)"
  by (cases r) (auto simp add: lookup_mesh_def update_mesh_def split: option.splits)

lemma getObstacleFromPool_Some:
  "getObstacleFromPool ty s = Some i \<Longrightarrow> \<not> live s (ty, i) \<and> lookup_mesh (ty, i) s \<noteq> None"
  by (auto simp add: getObstacleFromPool_def live_def lookup_mesh_def
      split: option.splits dest: find_free_Some)

lemma live_fields [simp]:
  "live (s\<lparr>obstacles := b\<rparr>) = live s"
  "live (s\<lparr>scene := a\<rparr>) = live s"
  "live (s\<lparr>rnd_used := n\<rparr>) = live s"
  "live (s\<lparr>lastSpawnZ := l\<rparr>) = live s"
  by (simp_all add: live_def fun_eq_iff)

lemma pools_bounded_fields [simp]:
  "pools_bounded (s\<lparr>obstacles := b\<rparr>) = pools_bounded s"
  "pools_bounded (s\<lparr>scene := a\<rparr>) = pools_bounded s"
  "pools_bounded (s\<lparr>rnd_used := n\<rparr>) = pools_bounded s"
  "pools_bounded (s\<lparr>lastSpawnZ := l\<rparr>) = pools_bounded s"
  by (simp_all add: pools_bounded_def)

lemma lookup_mesh_scene [simp]: "lookup_mesh r (s\<lparr>scene := a\<rparr>) = lookup_mesh r s"
  by (simp add: lookup_mesh_def)

lemma createObstacle_cases:
  "(createObstacle ty x z s = (None, s))
   \<or> (\<exists>i sc f ob. scene s = Some sc \<and> getObstacleFromPool ty s = Some i
        \<and> (\<forall>m. visible (f m)) \<and> ob_mesh ob = (ty, i)
        \<and> createObstacle ty x z s
            = (Some (length (obstacles s)),
               (update_mesh (ty, i) f s)
                 \<lparr>scene := Some (insert (ty, i) sc), obstacles := obstacles s @ [ob]\<rparr>))"
proof (cases "scene s")
  case None
  then show ?thesis by (simp add: createObstacle_def)
next
  case (Some sc)
  show ?thesis
  proof (cases "getObstacleFromPool ty s")
    case None
    with Some show ?thesis by (simp add: createObstacle_def)
  next
    case g: (Some i)
    let ?f = "\<lambda>m. m\<lparr>m_position := Vector3 x (if ty = Cone then 3 / 4 else 1) z, visible := True\<rparr>"
    from getObstacleFromPool_Some [OF g] obtain m where m: "lookup_mesh (ty, i) s = Some m"
      by auto
    let ?ob = "\<lparr>ob_mesh = (ty, i), ob_type = ty, ob_position = m_position (?f m),
                ob_boundingBox = setFromObject ty (?f m), isActive = True,
                ob_speed = None, ob_direction = None\<rparr>"
    have "createObstacle ty x z s
            = (Some (length (obstacles s)),
               (update_mesh (ty, i) ?f s)
                 \<lparr>scene := Some (insert (ty, i) sc), obstacles := obstacles s @ [?ob]\<rparr>)"
      unfolding createObstacle_def Let_def
      by (simp add: Some g lookup_update_mesh m)
    moreover have "\<forall>m. visible (?f m)" by simp
    moreover have "ob_mesh ?ob = (ty, i)" by simp
    ultimately show ?thesis
      using Some g
      by (intro disjI2 exI [of _ i] exI [of _ sc] exI [of _ ?f] exI [of _ ?ob] conjI)
  qed
qed

lemma om_inv_createObstacle:
  assumes "om_inv s"
  shows "om_inv (snd (createObstacle ty x z s))"
proof -
  from createObstacle_cases [of ty x z s] show ?thesis
  proof (elim disjE exE conjE)
    assume "createObstacle ty x z s = (None, s)"
    with assms show ?thesis by simp
  next
    fix i sc f ob
    assume g: "getObstacleFromPool ty s = Some i"
      and f: "\<forall>m. visible (f m)"
      and ob: "ob_mesh ob = (ty, i)"
      and c: "createObstacle ty x z s
                 = (Some (length (obstacles s)),
                    (update_mesh (ty, i) f s)
                      \<lparr>scene := Some (insert (ty, i) sc), obstacles := obstacles s @ [ob]\<rparr>)"
    define s1 where "s1 = update_mesh (ty, i) f s"
    from getObstacleFromPool_Some [OF g]
    have nl: "\<not> live s (ty, i)" and lk: "lookup_mesh (ty, i) s \<noteq> None" by simp_all
    from assms have d: "distinct (map ob_mesh (obstacles s))"
      and l: "list_all (live s) (map ob_mesh (obstacles s))"
      and pb: "pools_bounded s"
      by (simp_all add: om_inv_def refs_ok_def)
    from l nl have notin: "(ty, i) \<notin> set (map ob_mesh (obstacles s))"
      by (auto simp add: list_all_iff)
    have new: "live s1 (ty, i)"
      using lk f unfolding s1_def by (auto simp add: live_update_mesh_same)
    have "live s1 r" if "r \<in> set (map ob_mesh (obstacles s))" for r
    proof -
      from that notin have "r \<noteq> (ty, i)" by blast
      moreover from that l have "live s r" by (auto simp add: list_all_iff)
      ultimately show ?thesis unfolding s1_def by (simp add: live_update_mesh_other)
    qed
    then have old: "list_all (live s1) (map ob_mesh (obstacles s))"
      unfolding list_all_iff by blast
    have "pools_bounded s1" using pb unfolding s1_def by simp
    with d notin new old ob show ?thesis
      unfolding c s1_def [symmetric] by (simp add: om_inv_def refs_ok_def)
  qed
qed

lemma frame_createObstacle [simp]: "frame s (snd (createObstacle ty x z s))"
  using createObstacle_cases [of ty x z s]
  by (auto simp add: frame_def update_mesh_def split: option.splits)

lemma createObstacle_index:
  "createObstacle ty x z s = (Some i, s') \<Longrightarrow> i < length (obstacles s')"
  using createObstacle_cases [of ty x z s] by auto

lemma map_ob_mesh_update:
  "(\<And>ob. ob_mesh (f ob) = ob_mesh ob) \<Longrightarrow> map ob_mesh (xs[i := f (xs ! i)]) = map ob_mesh xs"
  by (cases "i < length xs") (auto simp add: list_eq_iff_nth_eq nth_list_update)

lemma om_inv_update_obstacle:
  "om_inv s \<Longrightarrow> (\<And>ob. ob_mesh (f ob) = ob_mesh ob) \<Longrightarrow> om_inv (update_obstacle i f s)"
  by (simp add: om_inv_def refs_ok_def update_obstacle_def map_ob_mesh_update)

lemma frame_update_obstacle [simp]: "frame s (update_obstacle i f s)"
  by (simp add: frame_def update_obstacle_def)

lemma live_update_mesh_keep_fun:
  "(\<And>m. visible (f m) = visible m) \<Longrightarrow> live (update_mesh r f s) = live s"
  by (rule ext) (simp add: live_update_mesh_keep)

lemma om_inv_shorten_wall: "om_inv s \<Longrightarrow> om_inv (shorten_wall i s)"
  by (simp add: om_inv_def refs_ok_def shorten_wall_def live_update_mesh_keep_fun)

lemma frame_shorten_wall [simp]: "frame s (shorten_wall i s)"
  by (simp add: shorten_wall_def)

lemma om_inv_draw [simp]: "om_inv (snd (draw s)) = om_inv s"
  by (simp add: om_inv_def refs_ok_def draw_def)

lemma om_inv_set_moving: "om_inv s \<Longrightarrow> om_inv (set_moving b dx s)"
proof (cases b)
  case None
  then show "om_inv s \<Longrightarrow> ?thesis" by (simp add: set_moving_def)
next
  case (Some i)
  assume "om_inv s"
  then have "om_inv (snd (draw s))" by simp
  then show ?thesis
    unfolding set_moving_def Some by (auto simp add: case_prod_beta intro: om_inv_update_obstacle)
qed

lemma frame_set_moving [simp]: "frame s (set_moving b dx s)"
  by (cases b) (auto simp add: set_moving_def case_prod_beta intro: frame_trans [OF frame_draw])

lemma draw_keeps [simp]:
  "frame s s' \<Longrightarrow> frame s (snd (draw s'))"
  "om_inv (snd (draw s')) = om_inv s'"
  by (simp_all add: frame_def draw_def om_inv_def refs_ok_def)

lemma createObstacle_keeps [simp]:
  "frame s s' \<Longrightarrow> frame s (snd (createObstacle ty x z s'))"
  "om_inv s' \<Longrightarrow> om_inv (snd (createObstacle ty x z s'))"
  by (erule frame_trans, rule frame_createObstacle) (rule om_inv_createObstacle)

lemma fold_keeps:
  assumes "\<And>x s s'. frame s s' \<Longrightarrow> frame s (f x s')"
    and "\<And>x s'. om_inv s' \<Longrightarrow> om_inv (f x s')"
  shows "frame s s' \<Longrightarrow> frame s (fold f xs s')"
    and "om_inv s' \<Longrightarrow> om_inv (fold f xs s')"
  by (induction xs arbitrary: s') (simp_all add: assms)

lemma spawnSingleBarrier_keeps [simp]:
  "frame s s' \<Longrightarrow> frame s (spawnSingleBarrier z s')"
  "om_inv s' \<Longrightarrow> om_inv (spawnSingleBarrier z s')"
  by (simp_all add: spawnSingleBarrier_def case_prod_beta)

lemma spawnDoubleBarrier_keeps [simp]:
  "frame s s' \<Longrightarrow> frame s (spawnDoubleBarrier z s')"
  "om_inv s' \<Longrightarrow> om_inv (spawnDoubleBarrier z s')"
  by (simp_all add: spawnDoubleBarrier_def case_prod_beta Let_def)

lemma wall_keeps:
  "frame s s' \<Longrightarrow>
     frame s (case createObstacle Wall x z s' of (None, t) \<Rightarrow> t | (Some w, t) \<Rightarrow> shorten_wall w t)"
  "om_inv s' \<Longrightarrow>
     om_inv (case createObstacle Wall x z s' of (None, t) \<Rightarrow> t | (Some w, t) \<Rightarrow> shorten_wall w t)"
proof -
  obtain w s1 where c: "createObstacle Wall x z s' = (w, s1)"
    by (cases "createObstacle Wall x z s'")
  from frame_createObstacle [of s' Wall x z] c have f: "frame s' s1" by simp
  show "frame s (case createObstacle Wall x z s' of (None, t) \<Rightarrow> t | (Some w, t) \<Rightarrow> shorten_wall w t)"
    if "frame s s'"
    unfolding c using frame_trans [OF that f]
    by (cases w) (simp_all add: frame_trans [OF _ frame_shorten_wall])
  show "om_inv (case createObstacle Wall x z s' of (None, t) \<Rightarrow> t | (Some w, t) \<Rightarrow> shorten_wall w t)"
    if "om_inv s'"
    unfolding c using om_inv_createObstacle [OF that, of Wall x z] c
    by (cases w) (simp_all add: om_inv_shorten_wall)
qed

lemma spawnWallGap_keeps [simp]:
  "frame s s' \<Longrightarrow> frame s (spawnWallGap z s')"
  "om_inv s' \<Longrightarrow> om_inv (spawnWallGap z s')"
  by (simp_all add: spawnWallGap_def case_prod_beta [of _ "draw _"] Let_def wall_keeps)

lemma coneStep_keeps [simp]:
  "frame s s' \<Longrightarrow> frame s (coneStep z i s')"
  "om_inv s' \<Longrightarrow> om_inv (coneStep z i s')"
  by (simp_all add: coneStep_def case_prod_beta Let_def)

lemma spawnConeSlalom_keeps [simp]:
  "frame s s' \<Longrightarrow> frame s (spawnConeSlalom z s')"
  "om_inv s' \<Longrightarrow> om_inv (spawnConeSlalom z s')"
  unfolding spawnConeSlalom_def Let_def
  by (rule fold_keeps; simp)+

lemma spawnNarrowPassage_keeps [simp]:
  "frame s s' \<Longrightarrow> frame s (spawnNarrowPassage z s')"
  "om_inv s' \<Longrightarrow> om_inv (spawnNarrowPassage z s')"
  by (simp_all add: spawnNarrowPassage_def Let_def)

lemma set_moving_keeps [simp]:
  "frame s s' \<Longrightarrow> frame s (set_moving b dx s')"
  "om_inv s' \<Longrightarrow> om_inv (set_moving b dx s')"
  by (erule frame_trans, rule frame_set_moving) (rule om_inv_set_moving)

lemma spawnMovingBarriers_keeps [simp]:
  "frame s s' \<Longrightarrow> frame s (spawnMovingBarriers z s')"
  "om_inv s' \<Longrightarrow> om_inv (spawnMovingBarriers z s')"
proof -
  obtain l s1 where c1: "createObstacle Barrier (- 4) z s' = (l, s1)"
    by (cases "createObstacle Barrier (- 4) z s'")
  obtain r s2 where c2: "createObstacle Barrier 4 z s1 = (r, s2)"
    by (cases "createObstacle Barrier 4 z s1")
  have e: "spawnMovingBarriers z s' = set_moving r (- 1) (set_moving l 1 s2)"
    by (simp add: spawnMovingBarriers_def c1 c2)
  have s1: "s1 = snd (createObstacle Barrier (- 4) z s')" by (simp add: c1)
  have s2: "s2 = snd (createObstacle Barrier 4 z s1)" by (simp add: c2)
  show "frame s (spawnMovingBarriers z s')" if "frame s s'"
    unfolding e s2 s1 using that by simp
  show "om_inv (spawnMovingBarriers z s')" if "om_inv s'"
    unfolding e s2 s1 using that by simp
qed

lemma spawnObstaclePattern_keeps [simp]:
  "frame s s' \<Longrightarrow> frame s (spawnObstaclePattern z s')"
  "om_inv s' \<Longrightarrow> om_inv (spawnObstaclePattern z s')"
  by (simp_all add: spawnObstaclePattern_def case_prod_beta Let_def split: option.splits)

lemma spawnInitialObstacles_keeps [simp]:
  "frame s s' \<Longrightarrow> frame s (spawnInitialObstacles s')"
  "om_inv s' \<Longrightarrow> om_inv (spawnInitialObstacles s')"
  unfolding spawnInitialObstacles_def
  by (rule fold_keeps; simp)+

lemma frame_scene_remove [simp]: "frame s (scene_remove r s)"
  by (simp add: frame_def scene_remove_def split: option.splits)

lemma live_scene_remove [simp]: "live (scene_remove r s) = live s"
  by (simp add: scene_remove_def split: option.splits)

lemma pools_bounded_scene_remove [simp]: "pools_bounded (scene_remove r s) = pools_bounded s"
  by (simp add: scene_remove_def split: option.splits)

lemma frame_returnObstacleToPool [simp]: "frame s (returnObstacleToPool r s)"
  by (simp add: returnObstacleToPool_def)

lemma pools_bounded_returnObstacleToPool [simp]:
  "pools_bounded (returnObstacleToPool r s) = pools_bounded s"
  by (simp add: returnObstacleToPool_def)

lemma cleanupLoop_props:
  "cleanupLoop limit os s = (kept, s') \<Longrightarrow>
     kept = filter (\<lambda>ob. \<not> vec_z (ob_position ob) < limit) os
     \<and> (\<forall>r. live s' r = (live s r \<and> r \<notin> ob_mesh ` set (filter (\<lambda>ob. vec_z (ob_position ob) < limit) os)))
     \<and> pools_bounded s' = pools_bounded s \<and> frame s s'"
proof (induction os arbitrary: s kept s')
  case Nil
  then show ?case by simp
next
  case (Cons ob os)
  show ?case
  proof (cases "vec_z (ob_position ob) < limit")
    case True
    let ?s1 = "returnObstacleToPool (ob_mesh ob) (scene_remove (ob_mesh ob) s)"
    from True Cons.prems have "cleanupLoop limit os ?s1 = (kept, s')" by simp
    from Cons.IH [OF this] True show ?thesis
      by (auto simp add: live_returnObstacleToPool intro: frame_trans [of s ?s1 s']
          frame_trans [OF frame_scene_remove frame_returnObstacleToPool])
  next
    case False
    obtain k1 where k: "cleanupLoop limit os s = (k1, s')" and "kept = ob # k1"
      using False Cons.prems by (auto split: prod.splits)
    from Cons.IH [OF k] False \<open>kept = ob # k1\<close> show ?thesis by simp
  qed
qed

lemma distinct_map_filter_disjoint:
  assumes "distinct (map f xs)" and "x \<in> set (filter P xs)"
  shows "f x \<notin> f ` set (filter (\<lambda>y. \<not> P y) xs)"
proof
  assume "f x \<in> f ` set (filter (\<lambda>y. \<not> P y) xs)"
  then obtain y where y: "y \<in> set xs" "\<not> P y" "f y = f x" by auto
  from assms(2) have x: "x \<in> set xs" "P x" by auto
  from assms(1) have "inj_on f (set xs)" by (simp add: distinct_map)
  with x y have "x = y" by (auto dest: inj_onD)
  with x y show False by simp
qed

lemma om_inv_cleanupObstacles: "om_inv s \<Longrightarrow> om_inv (cleanupObstacles carPosition s)"
proof -
  assume inv: "om_inv s"
  let ?limit = "vec_z carPosition + despawnDistance s"
  obtain kept s' where c: "cleanupLoop ?limit (obstacles s) s = (kept, s')"
    by (cases "cleanupLoop ?limit (obstacles s) s")
  note p = cleanupLoop_props [OF c]
  from inv have d: "distinct (map ob_mesh (obstacles s))"
    and l: "list_all (live s) (map ob_mesh (obstacles s))" and pb: "pools_bounded s"
    by (simp_all add: om_inv_def refs_ok_def)
  have k: "kept = filter (\<lambda>ob. \<not> vec_z (ob_position ob) < ?limit) (obstacles s)"
    using p by simp
  have d': "distinct (map ob_mesh kept)" unfolding k using d by (rule distinct_map_filter)
  have "live s' (ob_mesh ob)" if "ob \<in> set kept" for ob
  proof -
    from that have m: "ob \<in> set (filter (\<lambda>ob. \<not> vec_z (ob_position ob) < ?limit) (obstacles s))"
      by (simp add: k)
    from distinct_map_filter_disjoint [OF d m] 
    have "ob_mesh ob \<notin> ob_mesh ` set (filter (\<lambda>ob. vec_z (ob_position ob) < ?limit) (obstacles s))"
      by simp
    moreover from m l have "live s (ob_mesh ob)" by (auto simp add: list_all_iff)
    moreover from p have "live s' (ob_mesh ob) = (live s (ob_mesh ob)
        \<and> ob_mesh ob \<notin> ob_mesh ` set (filter (\<lambda>ob. vec_z (ob_position ob) < ?limit) (obstacles s)))"
      by blast
    ultimately show ?thesis by blast
  qed
  then have "list_all (live s') (map ob_mesh kept)" by (auto simp add: list_all_iff)
  with d' p pb show ?thesis
    by (simp add: cleanupObstacles_def c om_inv_def refs_ok_def)
qed

lemma frame_cleanupObstacles: "frame s (cleanupObstacles carPosition s)"
proof -
  let ?limit = "vec_z carPosition + despawnDistance s"
  obtain kept s' where c: "cleanupLoop ?limit (obstacles s) s = (kept, s')"
    by (cases "cleanupLoop ?limit (obstacles s) s")
  from cleanupLoop_props [OF c] show ?thesis
    by (simp add: cleanupObstacles_def c frame_def)
qed

lemma rnd_used_cleanup [simp]: "rnd_used (returnObstacleToPool r (scene_remove r' s)) = rnd_used s"
  by (simp add: returnObstacleToPool_def scene_remove_def split: option.splits)

lemma live_lookup_mesh: "lookup_mesh r s = Some m \<Longrightarrow> live s r = visible m"
  by (auto simp add: live_def lookup_mesh_def split: option.splits if_splits)

lemma moveLoop_props:
  "moveLoop dt os s = (os', s') \<Longrightarrow>
     map ob_mesh os' = map ob_mesh os \<and> live s' = live s
     \<and> pools_bounded s' = pools_bounded s \<and> frame s s'"
proof (induction os arbitrary: s os' s')
  case Nil
  then show ?case by simp
next
  case (Cons ob os)
  show ?case
  proof (cases "\<exists>v d m. ob_speed ob = Some v \<and> ob_direction ob = Some d
                  \<and> lookup_mesh (ob_mesh ob) s = Some m \<and> v \<noteq> 0")
    case False
    then obtain r1 where k: "moveLoop dt os s = (r1, s')" and "os' = ob # r1"
      using Cons.prems by (auto split: prod.splits option.splits if_splits)
    from Cons.IH [OF k] \<open>os' = ob # r1\<close> show ?thesis by simp
  next
    case True
    then obtain v d m where h: "ob_speed ob = Some v" "ob_direction ob = Some d"
      "lookup_mesh (ob_mesh ob) s = Some m" "v \<noteq> 0" by blast
    let ?p = "v_add (m_position m) (multiplyScalar d (v * dt))"
    let ?s1 = "update_mesh (ob_mesh ob) (\<lambda>_. m\<lparr>m_position := ?p\<rparr>) s"
    from h Cons.prems obtain ob1 r1 where k: "moveLoop dt os ?s1 = (r1, s')"
      and o: "os' = ob1 # r1" and m: "ob_mesh ob1 = ob_mesh ob"
      by (auto simp add: Let_def split: prod.splits)
    have lv: "live ?s1 = live s"
    proof
      fix r
      show "live ?s1 r = live s r"
      proof (cases "r = ob_mesh ob")
        case True
        with h(3) show ?thesis
          by (simp add: live_update_mesh_same live_lookup_mesh)
      next
        case False
        then show ?thesis by (simp add: live_update_mesh_other)
      qed
    qed
    from Cons.IH [OF k] o m lv show ?thesis
      by (auto intro: frame_trans [OF frame_update_mesh])
  qed
qed

lemma om_inv_updateMovingObstacles: "om_inv s \<Longrightarrow> om_inv (updateMovingObstacles dt s)"
proof -
  assume inv: "om_inv s"
  obtain os' s' where c: "moveLoop dt (obstacles s) s = (os', s')"
    by (cases "moveLoop dt (obstacles s) s")
  from moveLoop_props [OF c] inv show ?thesis
    by (simp add: updateMovingObstacles_def c om_inv_def refs_ok_def)
qed

lemma frame_updateMovingObstacles: "frame s (updateMovingObstacles dt s)"
proof -
  obtain os' s' where c: "moveLoop dt (obstacles s) s = (os', s')"
    by (cases "moveLoop dt (obstacles s) s")
  from moveLoop_props [OF c] show ?thesis
    by (simp add: updateMovingObstacles_def c frame_def)
qed

lemma UNIV_otype: "(UNIV :: otype set) = {Barrier, Wall, Cone}"
  using otype.exhaust by auto

lemma live_bound: "pools_bounded s \<Longrightarrow> live s r \<Longrightarrow> snd r < poolSize"
  by (cases "fst r")
     (auto simp add: pools_bounded_def live_def split: option.splits)

lemma om_inv_length: 
  assumes "om_inv s"
  shows "length (obstacles s) \<le> poolSize * typeCount"
proof -
  let ?refs = "map ob_mesh (obstacles s)"
  from assms have d: "distinct ?refs" and l: "list_all (live s) ?refs" and pb: "pools_bounded s"
    by (simp_all add: om_inv_def refs_ok_def)
  have "set ?refs \<subseteq> (UNIV :: otype set) \<times> {..< poolSize}"
  proof
    fix r assume "r \<in> set ?refs"
    with l have "live s r" by (auto simp add: list_all_iff)
    from live_bound [OF pb this] show "r \<in> UNIV \<times> {..< poolSize}"
      by (cases r) simp
  qed
  then have "card (set ?refs) \<le> card ((UNIV :: otype set) \<times> {..< poolSize})"
    by (intro card_mono) (simp_all add: UNIV_otype)
  also have "\<dots> = poolSize * typeCount"
    by (simp add: UNIV_otype typeCount_def)
  finally have "card (set ?refs) \<le> poolSize * typeCount" .
  with distinct_card [OF d] show ?thesis by simp
qed

lemma getObstacles_length: "om_inv s \<Longrightarrow> length (getObstacles s) \<le> poolSize * typeCount"
  unfolding getObstacles_def
  by (rule le_trans [OF length_filter_le om_inv_length])

lemma spawnStep_props:
  "(om_inv s \<longrightarrow> om_inv (spawnStep s)) \<and> rnd (spawnStep s) = rnd s
   \<and> difficulty (spawnStep s) = difficulty s \<and> timeSinceStart (spawnStep s) = timeSinceStart s
   \<and> spawnDistance (spawnStep s) = spawnDistance s
   \<and> lastSpawnZ (spawnStep s) = lastSpawnZ s + random (rnd s (rnd_used s)) 10 (20 / difficulty s)"
proof -
  let ?s2 = "s\<lparr>rnd_used := rnd_used s + 1,
               lastSpawnZ := lastSpawnZ s + random (rnd s (rnd_used s)) 10 (20 / difficulty s)\<rparr>"
  have e: "spawnStep s = spawnObstaclePattern (lastSpawnZ ?s2) ?s2"
    by (simp add: spawnStep_def draw_def Let_def)
  have i: "om_inv ?s2 = om_inv s" by (simp add: om_inv_def refs_ok_def)
  have f: "frame ?s2 (spawnObstaclePattern (lastSpawnZ ?s2) ?s2)"
    by (rule spawnObstaclePattern_keeps(1)) simp
  have "om_inv s \<longrightarrow> om_inv (spawnObstaclePattern (lastSpawnZ ?s2) ?s2)"
    using i spawnObstaclePattern_keeps(2) [of ?s2 "lastSpawnZ ?s2"] by blast
  with f show ?thesis unfolding e by (simp add: frame_def)
qed

lemma spawnLoop_partial:
  "spawnLoop z s = Some s' \<Longrightarrow>
     (om_inv s \<longrightarrow> om_inv s') \<and> rnd s' = rnd s \<and> difficulty s' = difficulty s
     \<and> timeSinceStart s' = timeSinceStart s"
proof (induction rule: spawnLoop.raw_induct [rotated 1, consumes 1, case_names step])
  case (step loop z s s')
  show ?case
  proof (cases "lastSpawnZ s < z")
    case True
    with step(2) have "loop z (spawnStep s) = Some s'" by simp
    from step(1) [OF this] spawnStep_props [of s] show ?thesis by simp
  next
    case False
    with step(2) show ?thesis by simp
  qed
qed

lemma om_inv_fields [simp]:
  "om_inv (s\<lparr>timeSinceStart := t\<rparr>) = om_inv s"
  "om_inv (s\<lparr>difficulty := d\<rparr>) = om_inv s"
  "om_inv (s\<lparr>lastSpawnZ := l\<rparr>) = om_inv s"
  by (simp_all add: om_inv_def refs_ok_def pools_bounded_def live_def [abs_def])

lemma om_update_inv:
  assumes "om_update dt carPosition s = Some s'" and "om_inv s"
  shows "om_inv s'"
proof -
  let ?s1 = "updateDifficulty (s\<lparr>timeSinceStart := timeSinceStart s + dt\<rparr>)"
  let ?s2 = "cleanupObstacles carPosition ?s1"
  from assms(1) obtain s3 where l: "spawnObstacles carPosition ?s2 = Some s3"
    and e: "s' = updateMovingObstacles dt s3"
    by (auto simp add: om_update_def Let_def)
  from assms(2) have "om_inv ?s1" by (simp add: updateDifficulty_def)
  then have "om_inv ?s2" by (rule om_inv_cleanupObstacles)
  with spawnLoop_partial [OF l [unfolded spawnObstacles_def]] have "om_inv s3" by simp
  then show ?thesis unfolding e by (rule om_inv_updateMovingObstacles)
qed

lemma fold_return_props:
  "pools_bounded (fold (\<lambda>ob s'. returnObstacleToPool (ob_mesh ob) (scene_remove (ob_mesh ob) s')) os s)
     = pools_bounded s
   \<and> frame s (fold (\<lambda>ob s'. returnObstacleToPool (ob_mesh ob) (scene_remove (ob_mesh ob) s')) os s)
   \<and> rnd_used (fold (\<lambda>ob s'. returnObstacleToPool (ob_mesh ob) (scene_remove (ob_mesh ob) s')) os s)
     = rnd_used s"
proof (induction os arbitrary: s)
  case Nil
  then show ?case by simp
next
  case (Cons ob os)
  let ?s1 = "returnObstacleToPool (ob_mesh ob) (scene_remove (ob_mesh ob) s)"
  have "frame s ?s1" by (rule frame_trans [OF frame_scene_remove frame_returnObstacleToPool])
  with Cons.IH [of ?s1] show ?case
    by (auto intro: frame_trans)
qed

lemma om_inv_reset: "om_inv s \<Longrightarrow> om_inv (om_reset s)"
proof -
  assume "om_inv s"
  then have pb: "pools_bounded s" by (simp add: om_inv_def)
  let ?s1 = "fold (\<lambda>ob s'. returnObstacleToPool (ob_mesh ob) (scene_remove (ob_mesh ob) s')) (obstacles s) s"
  from fold_return_props [of "obstacles s" s] pb have "pools_bounded ?s1" by simp
  then have "om_inv (?s1\<lparr>obstacles := [], lastSpawnZ := 50, difficulty := 1, timeSinceStart := 0\<rparr>)"
    by (simp add: om_inv_def refs_ok_def pools_bounded_def)
  from spawnInitialObstacles_keeps(2) [OF this] show ?thesis
    by (simp add: om_reset_def Let_def)
qed

lemma om_inv_initialize: "om_inv (om_initialize (new_ObstacleManager r))"
proof -
  have "om_inv (createObstaclePool ((new_ObstacleManager r)\<lparr>scene := Some {}\<rparr>))"
    by (simp add: om_inv_def refs_ok_def pools_bounded_def createObstaclePool_def
        new_ObstacleManager_def poolSize_def Let_def)
  from spawnInitialObstacles_keeps(2) [OF this] show ?thesis
    by (simp add: om_initialize_def)
qed

lemma om_run_inv: "om_run calls s = Some s' \<Longrightarrow> om_inv s \<Longrightarrow> om_inv s'"
proof (induction calls arbitrary: s)
  case Nil
  then show ?case by simp
next
  case (Cons c cs)
  from Cons.prems(1) obtain s1 where a: "om_apply c s = Some s1" and r: "om_run cs s1 = Some s'"
    by (auto split: option.splits)
  have "om_inv s1"
  proof (cases c)
    case (OmUpdate dt p)
    with a Cons.prems(2) show ?thesis by (auto intro: om_update_inv)
  next
    case OmReset
    with a Cons.prems(2) show ?thesis by (auto intro: om_inv_reset)
  qed
  from Cons.IH [OF r this] show ?case .
qed

lemma createObstacle_exhausted:
  assumes "obstaclePool s ty = Some pool" and "list_all visible pool"
  shows "createObstacle ty x z s = (None, s)"
proof -
  from assms(2) have "find_free pool = None" by (simp add: find_free_None)
  with assms(1) show ?thesis
    by (cases "scene s") (simp_all add: createObstacle_def getObstacleFromPool_def)
qed

lemma random_between:
  assumes "0 \<le> r" and "r < 1"
  shows "min 10 h \<le> random r 10 h"
proof (cases "10 \<le> h")
  case True
  with assms(1) have "0 \<le> r * (h - 10)" by simp
  then show ?thesis by (simp add: random_def)
next
  case False
  then have "h - 10 \<le> 0" by simp
  moreover from assms(2) have "r - 1 \<le> 0" by simp
  ultimately have "0 \<le> (r - 1) * (h - 10)" by (rule mult_nonpos_nonpos [rotated])
  then have "h \<le> r * (h - 10) + 10" by (simp add: algebra_simps)
  then show ?thesis by (simp add: random_def)
qed

lemma spacing_floor:
  assumes "0 < d" and "d \<le> 5"
  shows "(4 :: real) \<le> min 10 (20 / d)"
proof -
  from assms have "4 \<le> 20 / d" by (simp add: le_divide_eq)
  then show ?thesis by simp
qed

lemma spacing_bounds:
  assumes "0 \<le> r" and "r < 1" and "0 < d" and "d \<le> 5"
  shows "min 10 (20 / d) \<le> random r 10 (20 / d) \<and> 4 \<le> min 10 (20 / d)"
  using random_between [OF assms(1,2)] spacing_floor [OF assms(3,4)] by blast

lemma spawnStep_advance:
  assumes "rnd_ok (rnd s)" and "0 < difficulty s" and "difficulty s \<le> 5"
  shows "lastSpawnZ s + min 10 (20 / difficulty s) \<le> lastSpawnZ (spawnStep s)"
    and "lastSpawnZ s + 4 \<le> lastSpawnZ (spawnStep s)"
proof -
  from assms(1) have r: "0 \<le> rnd s (rnd_used s)" "rnd s (rnd_used s) < 1"
    by (simp_all add: rnd_ok_def)
  from spawnStep_props [of s]
  have e: "lastSpawnZ (spawnStep s)
      = lastSpawnZ s + random (rnd s (rnd_used s)) 10 (20 / difficulty s)" by simp
  from random_between [OF r] show m: "lastSpawnZ s + min 10 (20 / difficulty s) \<le> lastSpawnZ (spawnStep s)"
    unfolding e by simp
  from spacing_floor [OF assms(2,3)]
  have "lastSpawnZ s + 4 \<le> lastSpawnZ s + min 10 (20 / difficulty s)" by simp
  from this m show "lastSpawnZ s + 4 \<le> lastSpawnZ (spawnStep s)" by (rule order_trans)
qed

lemma spawnLoop_terminates:
  assumes "rnd_ok (rnd s)" and "0 < difficulty s" and "difficulty s \<le> 5"
  shows "\<exists>s'. spawnLoop z s = Some s'"
  using assms
proof (induction "nat \<lceil>(z - lastSpawnZ s) / 4\<rceil>" arbitrary: s rule: less_induct)
  case less
  show ?case
  proof (cases "lastSpawnZ s < z")
    case False
    then show ?thesis by (subst spawnLoop.simps) simp
  next
    case True
    let ?s1 = "spawnStep s"
    from spawnStep_advance(2) [OF less.prems] have a: "lastSpawnZ s + 4 \<le> lastSpawnZ ?s1" .
    then have "(z - lastSpawnZ ?s1) / 4 \<le> (z - lastSpawnZ s) / 4 - 1"
      by (simp add: field_simps)
    then have "\<lceil>(z - lastSpawnZ ?s1) / 4\<rceil> \<le> \<lceil>(z - lastSpawnZ s) / 4 - 1\<rceil>"
      by (rule ceiling_mono)
    then have c: "\<lceil>(z - lastSpawnZ ?s1) / 4\<rceil> \<le> \<lceil>(z - lastSpawnZ s) / 4\<rceil> - 1" by simp
    from True have "0 < (z - lastSpawnZ s) / 4" by simp
    then have "0 < \<lceil>(z - lastSpawnZ s) / 4\<rceil>" by (simp add: ceiling_less_iff)
    with c have m: "nat \<lceil>(z - lastSpawnZ ?s1) / 4\<rceil> < nat \<lceil>(z - lastSpawnZ s) / 4\<rceil>"
      by linarith
    from spawnStep_props [of s] less.prems
    have p: "rnd_ok (rnd ?s1)" "0 < difficulty ?s1" "difficulty ?s1 \<le> 5" by simp_all
    from less.hyps [OF m p] obtain s' where "spawnLoop z ?s1 = Some s'" by blast
    with True show ?thesis by (subst spawnLoop.simps) simp
  qed
qed

lemma updateDifficulty_range:
  "0 \<le> timeSinceStart s \<Longrightarrow>
     1 \<le> difficulty (updateDifficulty s) \<and> difficulty (updateDifficulty s) \<le> 5"
  by (simp add: updateDifficulty_def)

lemma om_update_total:
  assumes "rnd_ok (rnd s)" and "0 \<le> timeSinceStart s + dt"
  shows "\<exists>s'. om_update dt carPosition s = Some s' \<and> rnd s' = rnd s
           \<and> timeSinceStart s' = timeSinceStart s + dt"
proof -
  let ?s0 = "s\<lparr>timeSinceStart := timeSinceStart s + dt\<rparr>"
  let ?s1 = "updateDifficulty ?s0"
  let ?s2 = "cleanupObstacles carPosition ?s1"
  from assms(2) have "0 \<le> timeSinceStart ?s0" by simp
  from updateDifficulty_range [OF this]
  have d1: "1 \<le> difficulty ?s1" "difficulty ?s1 \<le> 5" by simp_all
  have f: "frame ?s1 ?s2" by (rule frame_cleanupObstacles)
  from f d1 have d2: "0 < difficulty ?s2" "difficulty ?s2 \<le> 5" by (simp_all add: frame_def)
  from f assms(1) have r2: "rnd_ok (rnd ?s2)" by (simp add: frame_def updateDifficulty_def)
  from f have t2: "timeSinceStart ?s2 = timeSinceStart s + dt" "rnd ?s2 = rnd s"
    by (simp_all add: frame_def updateDifficulty_def)
  from spawnLoop_terminates [OF r2 d2] obtain s3
    where l: "spawnObstacles carPosition ?s2 = Some s3"
    unfolding spawnObstacles_def by blast
  from spawnLoop_partial [OF l [unfolded spawnObstacles_def]] t2
  have t3: "timeSinceStart s3 = timeSinceStart s + dt" "rnd s3 = rnd s" by simp_all
  from frame_updateMovingObstacles [of s3 dt] t3
  have "rnd (updateMovingObstacles dt s3) = rnd s
      \<and> timeSinceStart (updateMovingObstacles dt s3) = timeSinceStart s + dt"
    by (simp add: frame_def)
  with l show ?thesis by (simp add: om_update_def Let_def)
qed

lemma om_reset_fields:
  "rnd (om_reset s) = rnd s \<and> timeSinceStart (om_reset s) = 0"
proof -
  let ?s1 = "fold (\<lambda>ob s'. returnObstacleToPool (ob_mesh ob) (scene_remove (ob_mesh ob) s')) (obstacles s) s"
  let ?s2 = "?s1\<lparr>obstacles := [], lastSpawnZ := 50, difficulty := 1, timeSinceStart := 0\<rparr>"
  from fold_return_props [of "obstacles s" s] have "rnd ?s2 = rnd s \<and> timeSinceStart ?s2 = 0"
    by (simp add: frame_def)
  with spawnInitialObstacles_keeps(1) [OF frame_refl, of ?s2] show ?thesis
    by (simp add: om_reset_def Let_def frame_def)
qed

lemma om_initialize_fields:
  "rnd (om_initialize (new_ObstacleManager r)) = r
   \<and> timeSinceStart (om_initialize (new_ObstacleManager r)) = 0"
proof -
  let ?s = "createObstaclePool ((new_ObstacleManager r)\<lparr>scene := Some {}\<rparr>)"
  have "rnd ?s = r \<and> timeSinceStart ?s = 0"
    by (simp add: createObstaclePool_def new_ObstacleManager_def Let_def)
  with spawnInitialObstacles_keeps(1) [OF frame_refl, of ?s] show ?thesis
    by (simp add: om_initialize_def frame_def)
qed

lemma om_run_total:
  assumes "rnd_ok (rnd s)" and "0 \<le> timeSinceStart s" and "steps_nonneg calls"
  shows "\<exists>s'. om_run calls s = Some s'"
  using assms
proof (induction calls arbitrary: s)
  case Nil
  then show ?case by simp
next
  case (Cons c cs)
  show ?case
  proof (cases c)
    case (OmUpdate dt p)
    with Cons.prems have dt: "0 \<le> dt" and cs: "steps_nonneg cs" by simp_all
    from dt Cons.prems(2) have "0 \<le> timeSinceStart s + dt" by simp
    from om_update_total [OF Cons.prems(1) this, of p] obtain s1
      where u: "om_update dt p s = Some s1" and r: "rnd s1 = rnd s"
        and t: "timeSinceStart s1 = timeSinceStart s + dt" by blast
    from r t Cons.prems dt have "rnd_ok (rnd s1)" "0 \<le> timeSinceStart s1" by simp_all
    from Cons.IH [OF this cs] u OmUpdate show ?thesis by simp
  next
    case OmReset
    with Cons.prems have cs: "steps_nonneg cs" by simp
    from om_reset_fields [of s] Cons.prems
    have "rnd_ok (rnd (om_reset s))" "0 \<le> timeSinceStart (om_reset s)" by simp_all
    from Cons.IH [OF this cs] OmReset show ?thesis by simp
  qed
qed

lemma session_total:
  assumes "rnd_ok r" and "steps_nonneg calls"
  shows "\<exists>s. session r calls = Some s"
proof -
  from om_initialize_fields [of r] assms(1)
  have "rnd_ok (rnd (om_initialize (new_ObstacleManager r)))"
    "0 \<le> timeSinceStart (om_initialize (new_ObstacleManager r))" by simp_all
  from om_run_total [OF this assms(2)] show ?thesis by (simp add: session_def)
qed

text \<open>
  C3. In a session (\<^verbatim>\<open>initialize\<close>, then any \<^verbatim>\<open>update\<close> and \<^verbatim>\<open>reset\<close> calls) the list that
  \<^verbatim>\<open>getObstacles\<close> returns never has more than \<open>poolSize \<times> typeCount = 20 \<times> 3 = 60\<close> entries,
  in whichever state the session arrives; a session whose time steps are not negative does
  arrive in a state after every call. A \<^verbatim>\<open>createObstacle\<close> for a type whose pool has only
  visible meshes returns \<^verbatim>\<open>null\<close> and leaves the manager as it was.
\<close>

theorem active_obstacles_bounded:
  "(session r calls = Some s \<longrightarrow>
      length (getObstacles s) \<le> poolSize * typeCount \<and> poolSize * typeCount = 60)
   \<and> (rnd_ok r \<and> steps_nonneg calls \<longrightarrow> (\<exists>s'. session r calls = Some s'))
   \<and> (obstaclePool m ty = Some pool \<and> list_all visible pool \<longrightarrow>
        createObstacle ty x z m = (None, m))"
proof -
  have "length (getObstacles s) \<le> poolSize * typeCount" if "session r calls = Some s"
  proof -
    from that have "om_run calls (om_initialize (new_ObstacleManager r)) = Some s"
      by (simp add: session_def)
    from om_run_inv [OF this om_inv_initialize] show ?thesis by (rule getObstacles_length)
  qed
  moreover have "poolSize * typeCount = 60" by (simp add: poolSize_def typeCount_def)
  moreover have "\<exists>s'. session r calls = Some s'" if "rnd_ok r \<and> steps_nonneg calls"
    using that session_total [of r calls] by blast
  moreover have "createObstacle ty x z m = (None, m)"
    if "obstaclePool m ty = Some pool \<and> list_all visible pool"
    using that createObstacle_exhausted [of m ty pool x z] by blast
  ultimately show ?thesis by blast
qed

lemma ex_rnd_ok: "rnd_ok ex_rnd"
  by (simp add: rnd_ok_def ex_rnd_def)

lemma ex_initial_count: "length (getObstacles (om_initialize (new_ObstacleManager ex_rnd))) = 6"
  by code_simp

theorem active_obstacles_bounded_witness:
  "session ex_rnd [] = Some (om_initialize (new_ObstacleManager ex_rnd))
   \<and> length (getObstacles (om_initialize (new_ObstacleManager ex_rnd))) = 6
   \<and> length (getObstacles (om_initialize (new_ObstacleManager ex_rnd))) \<le> poolSize * typeCount
   \<and> poolSize * typeCount = 60
   \<and> rnd_ok ex_rnd
   \<and> steps_nonneg [OmUpdate (1 / 60) (Vector3 0 (1 / 2) 0), OmReset, OmUpdate 45 (Vector3 1 (1 / 2) 30)]
   \<and> (\<exists>s'. session ex_rnd [OmUpdate (1 / 60) (Vector3 0 (1 / 2) 0), OmReset,
               OmUpdate 45 (Vector3 1 (1 / 2) 30)] = Some s')
   \<and> obstaclePool ex_full Cone = Some (replicate 20 (createObstacleGeometry Cone))
   \<and> list_all visible (replicate 20 (createObstacleGeometry Cone))
   \<and> createObstacle Cone 3 120 ex_full = (None, ex_full)"
proof -
  have a: "session ex_rnd [] = Some (om_initialize (new_ObstacleManager ex_rnd))"
    by (simp add: session_def)
  have b: "steps_nonneg [OmUpdate (1 / 60) (Vector3 0 (1 / 2) 0), OmReset,
      OmUpdate 45 (Vector3 1 (1 / 2) 30)]" by simp
  have c: "obstaclePool ex_full Cone = Some (replicate 20 (createObstacleGeometry Cone))"
    by (simp add: ex_full_def)
  have d: "list_all visible (replicate 20 (createObstacleGeometry Cone))"
    by (simp add: list_all_iff createObstacleGeometry_def)
  from active_obstacles_bounded [of ex_rnd "[]" "om_initialize (new_ObstacleManager ex_rnd)"
      ex_full Cone "replicate 20 (createObstacleGeometry Cone)" 3 120] a c d
  have 1: "length (getObstacles (om_initialize (new_ObstacleManager ex_rnd))) \<le> poolSize * typeCount"
    and 2: "poolSize * typeCount = 60"
    and 3: "createObstacle Cone 3 120 ex_full = (None, ex_full)"
    by blast+
  from active_obstacles_bounded [of ex_rnd "[OmUpdate (1 / 60) (Vector3 0 (1 / 2) 0), OmReset,
      OmUpdate 45 (Vector3 1 (1 / 2) 30)]"] ex_rnd_ok b
  have 4: "\<exists>s'. session ex_rnd [OmUpdate (1 / 60) (Vector3 0 (1 / 2) 0), OmReset,
               OmUpdate 45 (Vector3 1 (1 / 2) 30)] = Some s'"
    by blast
  from a ex_initial_count 1 2 ex_rnd_ok b 4 c d 3 show ?thesis by blast
qed

text \<open>
  C10. With \<^verbatim>\<open>Math.random()\<close> in \<open>[0, 1)\<close> and a difficulty in \<open>[1, 5]\<close>, the spawn loop ends
  for every car position: each pass advances \<open>lastSpawnZ\<close> by at least
  \<open>min 10 (20 / difficulty)\<close>, which is at least 4, and leaves the difficulty alone. The
  difficulty \<^verbatim>\<open>update\<close> computes is in \<open>[1, 5]\<close> whenever the accumulated time is not negative,
  and such an \<^verbatim>\<open>update\<close> returns.
\<close>

theorem spawn_loop_terminates:
  assumes "rnd_ok (rnd s)"
  shows "(1 \<le> difficulty s \<and> difficulty s \<le> 5 \<longrightarrow>
            (\<exists>s'. spawnObstacles carPosition s = Some s')
            \<and> 4 \<le> min 10 (20 / difficulty s)
            \<and> lastSpawnZ s + min 10 (20 / difficulty s) \<le> lastSpawnZ (spawnStep s)
            \<and> difficulty (spawnStep s) = difficulty s)
       \<and> (0 \<le> timeSinceStart s + deltaTime \<longrightarrow>
            1 \<le> difficulty (updateDifficulty (s\<lparr>timeSinceStart := timeSinceStart s + deltaTime\<rparr>))
            \<and> difficulty (updateDifficulty (s\<lparr>timeSinceStart := timeSinceStart s + deltaTime\<rparr>)) \<le> 5
            \<and> (\<exists>s'. om_update deltaTime carPosition s = Some s'))"
proof -
  have a: "(\<exists>s'. spawnObstacles carPosition s = Some s')
            \<and> 4 \<le> min 10 (20 / difficulty s)
            \<and> lastSpawnZ s + min 10 (20 / difficulty s) \<le> lastSpawnZ (spawnStep s)
            \<and> difficulty (spawnStep s) = difficulty s"
    if d: "1 \<le> difficulty s \<and> difficulty s \<le> 5"
  proof -
    from d have p: "0 < difficulty s" "difficulty s \<le> 5" by simp_all
    from spawnLoop_terminates [OF assms p] have "\<exists>s'. spawnObstacles carPosition s = Some s'"
      by (simp add: spawnObstacles_def)
    with spacing_floor [OF p] spawnStep_advance(1) [OF assms p] spawnStep_props [of s]
    show ?thesis by blast
  qed
  have b: "1 \<le> difficulty (updateDifficulty (s\<lparr>timeSinceStart := timeSinceStart s + deltaTime\<rparr>))
            \<and> difficulty (updateDifficulty (s\<lparr>timeSinceStart := timeSinceStart s + deltaTime\<rparr>)) \<le> 5
            \<and> (\<exists>s'. om_update deltaTime carPosition s = Some s')"
    if t: "0 \<le> timeSinceStart s + deltaTime"
  proof -
    from t have "0 \<le> timeSinceStart (s\<lparr>timeSinceStart := timeSinceStart s + deltaTime\<rparr>)" by simp
    from updateDifficulty_range [OF this] om_update_total [OF assms t, of carPosition]
    show ?thesis by blast
  qed
  from a b show ?thesis by blast
qed

theorem spawn_loop_terminates_witness:
  "rnd_ok (rnd (new_ObstacleManager ex_rnd))
   \<and> 1 \<le> difficulty (new_ObstacleManager ex_rnd) \<and> difficulty (new_ObstacleManager ex_rnd) \<le> 5
   \<and> (\<exists>s'. spawnObstacles (Vector3 0 (1 / 2) 1000) (new_ObstacleManager ex_rnd) = Some s')
   \<and> lastSpawnZ (new_ObstacleManager ex_rnd) + min 10 (20 / difficulty (new_ObstacleManager ex_rnd))
       \<le> lastSpawnZ (spawnStep (new_ObstacleManager ex_rnd))
   \<and> 0 \<le> timeSinceStart (new_ObstacleManager ex_rnd) + 600
   \<and> (\<exists>s'. om_update 600 (Vector3 0 (1 / 2) 1000) (new_ObstacleManager ex_rnd) = Some s')"
proof -
  have h: "rnd_ok (rnd (new_ObstacleManager ex_rnd))"
    "1 \<le> difficulty (new_ObstacleManager ex_rnd) \<and> difficulty (new_ObstacleManager ex_rnd) \<le> 5"
    "0 \<le> timeSinceStart (new_ObstacleManager ex_rnd) + 600"
    by (simp_all add: new_ObstacleManager_def ex_rnd_ok)
  from spawn_loop_terminates [OF h(1), of "Vector3 0 (1 / 2) 1000" 600] h show ?thesis
    by blast
qed

subsection \<open>What a pass of the spawn loop places\<close>

lemma free_count_all:
  "(\<And>ty. P ty) \<Longrightarrow> list_all P [Barrier, Wall, Cone]"
  by simp




lemma free_count_fields [simp]:
  "free_count ty (s\<lparr>obstacles := b\<rparr>) = free_count ty s"
  "free_count ty (s\<lparr>scene := a\<rparr>) = free_count ty s"
  "free_count ty (s\<lparr>rnd_used := n\<rparr>) = free_count ty s"
  "free_count ty (s\<lparr>lastSpawnZ := l\<rparr>) = free_count ty s"
  by (simp_all add: free_count_def)





























lemma free_count_draw [simp]: "free_count ty (snd (draw s)) = free_count ty s"
  by (simp add: draw_def)























end
